theory Spec2Isabelle
  imports Complex_Main
begin

section \<open>Python values: exceptions and floats\<close>

text \<open>
  The exceptions that the modelled code can meet. \<open>SystemExit\<close> is the one that is not a
  subclass of \<open>Exception\<close>: an \<open>except Exception\<close> clause lets it pass.
\<close>

datatype py_exception =
    BinanceAPIException int string
  | BinanceRequestException string
  | ZeroDivisionError
  | OverflowError
  | ValueError
  | AttributeError
  | OtherException string
  | SystemExit int

fun is_Exception :: "py_exception \<Rightarrow> bool" where
  "is_Exception (SystemExit _) = False"
| "is_Exception _ = True"

fun is_BinanceRequestException :: "py_exception \<Rightarrow> bool" where
  "is_BinanceRequestException (BinanceRequestException _) = True"
| "is_BinanceRequestException _ = False"

text \<open>
  A Python \<open>float\<close> is an IEEE 754 binary64 number. A finite one is modelled by the rational
  it denotes (the two zeros are not told apart: the code never divides by a float zero
  without raising and never prints one); the infinities and NaN are values of their own.
  \<open>rnd\<close> rounds a rational to the nearest binary64 number, ties to even: 53 bits of
  precision, smallest exponent \<open>-1022\<close>, overflow from \<open>2^1024\<close> on.
\<close>

datatype pyfloat = Fin rat | PInf | NInf | NaN

fun bitlen :: "nat \<Rightarrow> nat" where
  "bitlen n = (if n = 0 then 0 else Suc (bitlen (n div 2)))"

declare bitlen.simps [simp del]

definition ilog2 :: "rat \<Rightarrow> int" where
  \<comment> \<open>for \<open>0 < x\<close>: the \<open>e\<close> with \<open>2^e \<le> x < 2^(e+1)\<close>\<close>
  "ilog2 x = (if 1 \<le> x then int (bitlen (nat \<lfloor>x\<rfloor>)) - 1
              else - int (bitlen (nat \<lceil>1 / x\<rceil> - 1)))"

definition pow2 :: "int \<Rightarrow> rat" where
  "pow2 e = 2 powi e"

definition round_half_even :: "rat \<Rightarrow> int" where
  "round_half_even x =
     (let f = \<lfloor>x\<rfloor>; d = x - of_int f
      in if d < 1 / 2 then f else if 1 / 2 < d then f + 1 else if even f then f else f + 1)"

definition rnd :: "rat \<Rightarrow> pyfloat" where
  "rnd x =
     (if x = 0 then Fin 0
      else let e = max (ilog2 \<bar>x\<bar>) (- 1022);
               u = pow2 (e - 52);
               m = round_half_even (x / u)
           in if 1024 \<le> e \<or> (e = 1023 \<and> \<bar>m\<bar> = 9007199254740992)
              then (if 0 < x then PInf else NInf)
              else Fin (of_int m * u))"

text \<open>Comparison: every comparison with NaN is false.\<close>

fun float_lt :: "pyfloat \<Rightarrow> pyfloat \<Rightarrow> bool" where
  "float_lt NaN _ = False"
| "float_lt _ NaN = False"
| "float_lt (Fin a) (Fin b) = (a < b)"
| "float_lt _ NInf = False"
| "float_lt NInf _ = True"
| "float_lt PInf _ = False"
| "float_lt (Fin a) PInf = True"

definition float_gt :: "pyfloat \<Rightarrow> pyfloat \<Rightarrow> bool" where
  "float_gt a b = float_lt b a"

text \<open>\<open>x != 0\<close> and the truth value of a float: NaN and the infinities are not zero.\<close>

fun float_nonzero :: "pyfloat \<Rightarrow> bool" where
  "float_nonzero (Fin a) = (a \<noteq> 0)"
| "float_nonzero _ = True"

fun float_neg :: "pyfloat \<Rightarrow> pyfloat" where
  "float_neg (Fin a) = Fin (- a)"
| "float_neg PInf = NInf"
| "float_neg NInf = PInf"
| "float_neg NaN = NaN"

fun float_add :: "pyfloat \<Rightarrow> pyfloat \<Rightarrow> pyfloat" where
  "float_add NaN _ = NaN"
| "float_add _ NaN = NaN"
| "float_add (Fin a) (Fin b) = rnd (a + b)"
| "float_add PInf NInf = NaN"
| "float_add NInf PInf = NaN"
| "float_add PInf _ = PInf"
| "float_add _ PInf = PInf"
| "float_add NInf _ = NInf"
| "float_add _ NInf = NInf"

definition float_sub :: "pyfloat \<Rightarrow> pyfloat \<Rightarrow> pyfloat" where
  "float_sub a b = float_add a (float_neg b)"

fun float_mul :: "pyfloat \<Rightarrow> pyfloat \<Rightarrow> pyfloat" where
  "float_mul NaN _ = NaN"
| "float_mul _ NaN = NaN"
| "float_mul (Fin a) (Fin b) = rnd (a * b)"
| "float_mul (Fin a) b = (if a = 0 then NaN else if 0 < a then b else float_neg b)"
| "float_mul a (Fin b) = (if b = 0 then NaN else if 0 < b then a else float_neg a)"
| "float_mul PInf b = b"
| "float_mul NInf b = float_neg b"

text \<open>
  True division \<open>a / b\<close>: Python raises \<open>ZeroDivisionError\<close> on a zero divisor, whatever the
  dividend.
\<close>

fun float_truediv :: "pyfloat \<Rightarrow> pyfloat \<Rightarrow> py_exception + pyfloat" where
  "float_truediv a (Fin b) =
     (if b = 0 then Inl ZeroDivisionError
      else case a of
             Fin x \<Rightarrow> Inr (rnd (x / b))
           | NaN \<Rightarrow> Inr NaN
           | _ \<Rightarrow> Inr (if 0 < b then a else float_neg a))"
| "float_truediv NaN _ = Inr NaN"
| "float_truediv _ NaN = Inr NaN"
| "float_truediv (Fin a) _ = Inr (Fin 0)"
| "float_truediv _ _ = Inr NaN"

text \<open>
  The remainder \<open>a % b\<close>, as CPython's \<open>float_rem\<close> computes it: \<open>ZeroDivisionError\<close> on a
  zero divisor; otherwise C's \<open>fmod\<close> (exact, with the sign of the dividend), moved by one
  divisor when it is not zero and its sign differs from the divisor's.
\<close>

definition trunc :: "rat \<Rightarrow> int" where
  "trunc q = (if 0 \<le> q then \<lfloor>q\<rfloor> else \<lceil>q\<rceil>)"

fun fmod :: "pyfloat \<Rightarrow> pyfloat \<Rightarrow> pyfloat" where
  "fmod NaN _ = NaN"
| "fmod _ NaN = NaN"
| "fmod PInf _ = NaN"
| "fmod NInf _ = NaN"
| "fmod (Fin a) (Fin b) = (if b = 0 then NaN else Fin (a - b * of_int (trunc (a / b))))"
| "fmod (Fin a) _ = Fin a"

definition float_mod :: "pyfloat \<Rightarrow> pyfloat \<Rightarrow> py_exception + pyfloat" where
  "float_mod a b =
     (if b = Fin 0 then Inl ZeroDivisionError
      else let m = fmod a b
           in if float_nonzero m
              then (if float_lt b (Fin 0) \<noteq> float_lt m (Fin 0) then Inr (float_add m b)
                    else Inr m)
              else Inr (Fin 0))"

text \<open>
  An \<open>int\<close> operand of a float operation is converted first; the conversion raises
  \<open>OverflowError\<close> when the integer is beyond the float range.
\<close>

definition int_to_float :: "int \<Rightarrow> py_exception + pyfloat" where
  "int_to_float n = (case rnd (of_int n) of Fin r \<Rightarrow> Inr (Fin r) | _ \<Rightarrow> Inl OverflowError)"

text \<open>
  The exchange sends every bound and increment as a decimal string, such as \<open>'0.001'\<close>. The
  string is represented by the rational it denotes, and \<open>float(s)\<close> rounds it.
\<close>

definition float_of_decimal :: "rat \<Rightarrow> pyfloat" where
  "float_of_decimal d = rnd d"

section \<open>Exchange metadata, orders and the observable state\<close>

text \<open>
  One entry of a symbol's \<open>filters\<close> list, told apart by its \<open>filterType\<close>. Only the price
  filter and the lot size filter are read by the code.
\<close>

datatype symbol_filter =
    PRICE_FILTER (minPrice: rat) (maxPrice: rat) (tickSize: rat)
  | LOT_SIZE (minQty: rat) (maxQty: rat) (stepSize: rat)
  | OTHER_FILTER string

fun is_price_filter :: "symbol_filter \<Rightarrow> bool" where
  "is_price_filter (PRICE_FILTER _ _ _) = True"
| "is_price_filter _ = False"

fun is_lot_size :: "symbol_filter \<Rightarrow> bool" where
  "is_lot_size (LOT_SIZE _ _ _) = True"
| "is_lot_size _ = False"

record symbol_info =
  symbol :: string
  filters :: "symbol_filter list"

record exchange_info =
  symbols :: "symbol_info list"

text \<open>The keyword arguments of one \<open>futures_create_order\<close> call, and what the call returns.\<close>

record order =
  order_symbol :: string
  order_side :: string
  order_type :: string
  quantity :: pyfloat
  price :: "pyfloat option"
  stopPrice :: "pyfloat option"
  timeInForce :: "string option"

record response =
  orderId :: int
  status :: string

text \<open>The order types of \<open>binance.enums\<close> that the strategies use.\<close>

definition FUTURE_ORDER_TYPE_MARKET :: string where
  "FUTURE_ORDER_TYPE_MARKET = ''MARKET''"

definition FUTURE_ORDER_TYPE_LIMIT :: string where
  "FUTURE_ORDER_TYPE_LIMIT = ''LIMIT''"

definition FUTURE_ORDER_TYPE_STOP :: string where
  "FUTURE_ORDER_TYPE_STOP = ''STOP''"

text \<open>The records that the code writes to its logger, one constructor for each call.\<close>

datatype log_entry =
    InvalidSymbol string
  | MissingFilters string
  | InvalidQuantity pyfloat pyfloat pyfloat
  | InvalidQuantityStep pyfloat pyfloat
  | InvalidPrice pyfloat pyfloat pyfloat
  | InvalidPriceTick pyfloat pyfloat
  | HandledError py_exception
  | ValidationFailedAborting
  | MarketOrderPlaced response
  | LimitOrderPlaced response
  | StopLimitOrderPlaced response
  | OcoValidationFailedAborting
  | OcoOrdersPlaced response response
  | DurationTooShort
  | StartingTwap int pyfloat int
  | TwapValidationFailedAborting
  | TwapOrderPlaced int int response
  | TwapSubOrderFailedContinuing
  | GridLevelsTooFew
  | GridValidationFailedAborting pyfloat
  | GridOrderPlaced string pyfloat pyfloat response
  | GridOrderFailedContinuing pyfloat
  | GridOrdersPlaced nat

text \<open>
  What an invocation does that can be observed from outside: the metadata fetches, the calls
  of the validator with their arguments and outcome, the order-creation calls with their
  keyword arguments and outcome, the log records and the waits.
\<close>

datatype event =
    Fetch
  | Validate string pyfloat "pyfloat option" "py_exception + bool"
  | CreateOrder order "py_exception + response"
  | Log log_entry
  | Sleep int

text \<open>
  The process state: the two class attributes of \<open>ExchangeInfo\<close> (whether \<open>_instance\<close> is
  set, and \<open>_info\<close>), the number of metadata fetches and of order-creation calls made so
  far, and the events so far.
\<close>

record world =
  instance_set :: bool
  info :: "exchange_info option"
  fetches :: nat
  orders_sent :: nat
  trace :: "event list"

definition initial_world :: world where
  "initial_world = \<lparr>instance_set = False, info = None, fetches = 0, orders_sent = 0, trace = []\<rparr>"

text \<open>
  The exchange behind a \<open>BinanceClient\<close>: its answer to the \<open>n\<close>-th metadata fetch and to the
  \<open>n\<close>-th order-creation call. \<open>inner_handle_error\<close> says whether the object that
  \<open>get_client()\<close> returns has a \<open>handle_error\<close> method: the test suite's \<open>MockClient\<close> has one,
  the exchange library's \<open>Client\<close> has none.
\<close>

record client =
  futures_exchange_info :: "nat \<Rightarrow> py_exception + exchange_info"
  futures_create_order :: "nat \<Rightarrow> order \<Rightarrow> py_exception + response"
  inner_handle_error :: bool

definition emit :: "event \<Rightarrow> world \<Rightarrow> world" where
  "emit e w = w\<lparr>trace := trace w @ [e]\<rparr>"

definition logger :: "log_entry \<Rightarrow> world \<Rightarrow> world" where
  "logger l w = emit (Log l) w"

text \<open>
  \<open>BinanceClient.handle_error\<close>. For the two exceptions of the exchange library it formats
  \<open>e.status_code\<close> and \<open>e.message\<close> into the record; \<open>BinanceAPIException\<close> has both, and
  \<open>BinanceRequestException\<close> has only \<open>message\<close>, so for it the attribute access raises
  \<open>AttributeError\<close> before anything is logged. Every other exception is logged.
\<close>

fun handle_error :: "py_exception \<Rightarrow> world \<Rightarrow> (py_exception + unit) \<times> world" where
  "handle_error (BinanceRequestException m) w = (Inl AttributeError, w)"
| "handle_error e w = (Inr (), logger (HandledError e) w)"

section \<open>The exchange metadata cache\<close>

text \<open>
  \<open>ExchangeInfo.__new__\<close>: the first construction sets \<open>_instance\<close> and then fetches; every
  later one returns the instance as it is. When the fetch raises, the handler calls
  \<open>handle_error\<close> on the object it was given, which is the inner client, and then
  \<open>sys.exit(1)\<close>. The one inner client of the repository that has the method, the test
  suite's \<open>MockClient\<close>, does nothing in it; an object without the method makes the handler
  itself raise \<open>AttributeError\<close>.
\<close>

definition ExchangeInfo_new :: "client \<Rightarrow> world \<Rightarrow> (py_exception + unit) \<times> world" where
  "ExchangeInfo_new c w =
     (if instance_set w then (Inr (), w)
      else let w1 = emit Fetch (w\<lparr>instance_set := True, fetches := fetches w + 1\<rparr>)
           in case futures_exchange_info c (fetches w) of
                Inr i \<Rightarrow> (Inr (), w1\<lparr>info := Some i\<rparr>)
              | Inl e \<Rightarrow>
                  if is_Exception e
                  then (if inner_handle_error c then (Inl (SystemExit 1), w1)
                        else (Inl AttributeError, w1))
                  else (Inl e, w1))"

definition get_symbol_info :: "world \<Rightarrow> string \<Rightarrow> symbol_info option" where
  "get_symbol_info w symb =
     (case info w of
        None \<Rightarrow> None
      | Some i \<Rightarrow> find (\<lambda>s. symbol s = symb) (symbols i))"

section \<open>The order validator\<close>

definition truthy :: "pyfloat option \<Rightarrow> bool" where
  \<comment> \<open>\<open>if price:\<close> is false for \<open>None\<close> and for a zero\<close>
  "truthy p = (case p of None \<Rightarrow> False | Some x \<Rightarrow> float_nonzero x)"

definition validate_input ::
    "client \<Rightarrow> string \<Rightarrow> pyfloat \<Rightarrow> pyfloat option \<Rightarrow> world \<Rightarrow> (py_exception + bool) \<times> world" where
  "validate_input c symb qty prc w =
     (case ExchangeInfo_new c w of
        (Inl e, w1) \<Rightarrow> (Inl e, w1)
      | (Inr _, w1) \<Rightarrow>
          (case get_symbol_info w1 symb of
             None \<Rightarrow> (Inr False, logger (InvalidSymbol symb) w1)
           | Some symbol_info \<Rightarrow>
               (case (find is_price_filter (filters symbol_info),
                      find is_lot_size (filters symbol_info)) of
                  (Some price_filter, Some lot_size_filter) \<Rightarrow>
                    (let min_qty = float_of_decimal (minQty lot_size_filter);
                         max_qty = float_of_decimal (maxQty lot_size_filter);
                         step_size = float_of_decimal (stepSize lot_size_filter)
                     in if float_lt qty min_qty \<or> float_gt qty max_qty
                        then (Inr False, logger (InvalidQuantity qty min_qty max_qty) w1)
                        else case float_mod (float_sub qty min_qty) step_size of
                               Inl e \<Rightarrow> (Inl e, w1)
                             | Inr r \<Rightarrow>
                                 if float_nonzero r
                                 then (Inr False, logger (InvalidQuantityStep qty step_size) w1)
                                 else if truthy prc
                                 then (let p = the prc;
                                           min_price = float_of_decimal (minPrice price_filter);
                                           max_price = float_of_decimal (maxPrice price_filter);
                                           tick_size = float_of_decimal (tickSize price_filter)
                                       in if float_lt p min_price \<or> float_gt p max_price
                                          then (Inr False,
                                                logger (InvalidPrice p min_price max_price) w1)
                                          else case float_mod (float_sub p min_price) tick_size of
                                                 Inl e \<Rightarrow> (Inl e, w1)
                                               | Inr r \<Rightarrow>
                                                   if float_nonzero r
                                                   then (Inr False,
                                                         logger (InvalidPriceTick p tick_size) w1)
                                                   else (Inr True, w1))
                                 else (Inr True, w1))
                | _ \<Rightarrow> (Inr False, logger (MissingFilters symb) w1))))"

text \<open>A call of the validator, recorded with its arguments and outcome.\<close>

definition call_validate_input ::
    "client \<Rightarrow> string \<Rightarrow> pyfloat \<Rightarrow> pyfloat option \<Rightarrow> world \<Rightarrow> (py_exception + bool) \<times> world" where
  "call_validate_input c symb qty prc w =
     (case validate_input c symb qty prc w of
        (r, w1) \<Rightarrow> (r, emit (Validate symb qty prc r) w1))"

text \<open>A call of \<open>futures_create_order\<close>, recorded with its keyword arguments and outcome.\<close>

definition call_create_order :: "client \<Rightarrow> order \<Rightarrow> world \<Rightarrow> (py_exception + response) \<times> world" where
  "call_create_order c ord w =
     (let r = futures_create_order c (orders_sent w) ord
      in (r, emit (CreateOrder ord r) (w\<lparr>orders_sent := orders_sent w + 1\<rparr>)))"

section \<open>The strategies\<close>

text \<open>
  Every strategy body stands in \<open>try: ... except Exception as e: client.handle_error(e)\<close>:
  an exception that is an \<open>Exception\<close> goes to \<open>handle_error\<close>, after which the function
  returns \<open>None\<close>; an exception that \<open>handle_error\<close> itself raises leaves the function, as
  does one that is not an \<open>Exception\<close>.
\<close>

definition except_Exception :: "py_exception \<Rightarrow> world \<Rightarrow> (py_exception + 'a option) \<times> world" where
  "except_Exception e w =
     (if is_Exception e
      then (case handle_error e w of
              (Inl e', w1) \<Rightarrow> (Inl e', w1)
            | (Inr _, w1) \<Rightarrow> (Inr None, w1))
      else (Inl e, w))"

definition place_market_order ::
    "client \<Rightarrow> string \<Rightarrow> string \<Rightarrow> pyfloat \<Rightarrow> world \<Rightarrow> (py_exception + response option) \<times> world" where
  "place_market_order c symb side qty w =
     (case call_validate_input c symb qty None w of
        (Inl e, w1) \<Rightarrow> except_Exception e w1
      | (Inr ok, w1) \<Rightarrow>
          if \<not> ok then (Inr None, logger ValidationFailedAborting w1)
          else (case call_create_order c
                       \<lparr>order_symbol = symb, order_side = side,
                        order_type = FUTURE_ORDER_TYPE_MARKET, quantity = qty,
                        price = None, stopPrice = None, timeInForce = None\<rparr> w1 of
                  (Inl e, w2) \<Rightarrow> except_Exception e w2
                | (Inr r, w2) \<Rightarrow> (Inr (Some r), logger (MarketOrderPlaced r) w2)))"

text \<open>
  Modelled from the spec: \<open>place_limit_order\<close> of \<open>src/limit_orders.py\<close>, which the
  application and the tests import and which is not among the sources. The spec's table has
  it as one order of type LIMIT with the price required and a configurable time in force,
  with the failure policy of the market strategy: abort when validation fails, otherwise a
  single gateway call whose result is returned.
\<close>

definition place_limit_order ::
    "client \<Rightarrow> string \<Rightarrow> string \<Rightarrow> pyfloat \<Rightarrow> pyfloat \<Rightarrow> string \<Rightarrow> world
      \<Rightarrow> (py_exception + response option) \<times> world" where
  "place_limit_order c symb side qty prc time_in_force w =
     (case call_validate_input c symb qty (Some prc) w of
        (Inl e, w1) \<Rightarrow> except_Exception e w1
      | (Inr ok, w1) \<Rightarrow>
          if \<not> ok then (Inr None, logger ValidationFailedAborting w1)
          else (case call_create_order c
                       \<lparr>order_symbol = symb, order_side = side,
                        order_type = FUTURE_ORDER_TYPE_LIMIT, quantity = qty,
                        price = Some prc, stopPrice = None,
                        timeInForce = Some time_in_force\<rparr> w1 of
                  (Inl e, w2) \<Rightarrow> except_Exception e w2
                | (Inr r, w2) \<Rightarrow> (Inr (Some r), logger (LimitOrderPlaced r) w2)))"

definition place_stop_limit_order ::
    "client \<Rightarrow> string \<Rightarrow> string \<Rightarrow> pyfloat \<Rightarrow> pyfloat \<Rightarrow> pyfloat \<Rightarrow> world
      \<Rightarrow> (py_exception + response option) \<times> world" where
  "place_stop_limit_order c symb side qty stop_price limit_price w =
     (case call_validate_input c symb qty (Some limit_price) w of
        (Inl e, w1) \<Rightarrow> except_Exception e w1
      | (Inr ok, w1) \<Rightarrow>
          if \<not> ok then (Inr None, logger ValidationFailedAborting w1)
          else (case call_create_order c
                       \<lparr>order_symbol = symb, order_side = side,
                        order_type = FUTURE_ORDER_TYPE_STOP, quantity = qty,
                        price = Some limit_price, stopPrice = Some stop_price,
                        timeInForce = Some ''GTC''\<rparr> w1 of
                  (Inl e, w2) \<Rightarrow> except_Exception e w2
                | (Inr r, w2) \<Rightarrow> (Inr (Some r), logger (StopLimitOrderPlaced r) w2)))"

text \<open>
  The simulated bracket: \<open>not validate_input(..., take_profit) or not validate_input(...,
  stop_loss)\<close> evaluates the second call only when the first one passed; both orders are
  created inside the one \<open>try\<close>.
\<close>

definition place_oco_order ::
    "client \<Rightarrow> string \<Rightarrow> string \<Rightarrow> pyfloat \<Rightarrow> pyfloat \<Rightarrow> pyfloat \<Rightarrow> world
      \<Rightarrow> (py_exception + (response \<times> response) option) \<times> world" where
  "place_oco_order c symb side qty take_profit stop_loss w =
     (case call_validate_input c symb qty (Some take_profit) w of
        (Inl e, w1) \<Rightarrow> except_Exception e w1
      | (Inr ok1, w1) \<Rightarrow>
          if \<not> ok1 then (Inr None, logger OcoValidationFailedAborting w1)
          else (case call_validate_input c symb qty (Some stop_loss) w1 of
                  (Inl e, w2) \<Rightarrow> except_Exception e w2
                | (Inr ok2, w2) \<Rightarrow>
                    if \<not> ok2 then (Inr None, logger OcoValidationFailedAborting w2)
                    else (let tp_side = (if side = ''BUY'' then ''SELL'' else ''BUY'')
                          in case call_create_order c
                                    \<lparr>order_symbol = symb, order_side = tp_side,
                                     order_type = ''TAKE_PROFIT'', quantity = qty,
                                     price = None, stopPrice = Some take_profit,
                                     timeInForce = None\<rparr> w2 of
                               (Inl e, w3) \<Rightarrow> except_Exception e w3
                             | (Inr tp_order, w3) \<Rightarrow>
                                 (let sl_side = (if side = ''BUY'' then ''SELL'' else ''BUY'')
                                  in case call_create_order c
                                            \<lparr>order_symbol = symb, order_side = sl_side,
                                             order_type = ''STOP'', quantity = qty,
                                             price = None, stopPrice = Some stop_loss,
                                             timeInForce = None\<rparr> w3 of
                                       (Inl e, w4) \<Rightarrow> except_Exception e w4
                                     | (Inr sl_order, w4) \<Rightarrow>
                                         (Inr (Some (tp_order, sl_order)),
                                          logger (OcoOrdersPlaced tp_order sl_order) w4)))))"

text \<open>
  \<open>time.sleep\<close> on an integer number of seconds. It raises \<open>ValueError\<close> on a negative
  length and \<open>OverflowError\<close> on a length that does not fit the interpreter's timestamp, a
  signed 64-bit count of nanoseconds: the largest length it takes is
  \<open>(2^63 - 1) div 10^9\<close> seconds. Any other length is waited for.
\<close>

definition time_sleep_max :: int where
  "time_sleep_max = 9223372036"

definition sleep :: "int \<Rightarrow> world \<Rightarrow> (py_exception + unit) \<times> world" where
  "sleep secs w =
     (if secs < 0 then (Inl ValueError, w)
      else if time_sleep_max < secs then (Inl OverflowError, w)
      else (Inr (), emit (Sleep secs) w))"

text \<open>
  The loop of \<open>place_twap_order\<close> over \<open>range(int(num_intervals))\<close>. \<open>Inl e\<close>: the iteration
  raised \<open>e\<close> outside the inner \<open>try\<close> or in its handler; \<open>Inr ()\<close>: the function's end was
  reached, by the loop's end or by the \<open>return\<close> after a failed validation.
\<close>

fun twap_loop ::
    "client \<Rightarrow> string \<Rightarrow> string \<Rightarrow> pyfloat \<Rightarrow> int \<Rightarrow> int \<Rightarrow> nat list \<Rightarrow> world
      \<Rightarrow> (py_exception + unit) \<times> world" where
  "twap_loop c symb side quantity_per_order num_intervals interval_seconds [] w = (Inr (), w)"
| "twap_loop c symb side quantity_per_order num_intervals interval_seconds (i # rest) w =
     (case call_validate_input c symb quantity_per_order None w of
        (Inl e, w1) \<Rightarrow> (Inl e, w1)
      | (Inr ok, w1) \<Rightarrow>
          if \<not> ok then (Inr (), logger TwapValidationFailedAborting w1)
          else (case (case call_create_order c
                             \<lparr>order_symbol = symb, order_side = side,
                              order_type = FUTURE_ORDER_TYPE_MARKET,
                              quantity = quantity_per_order,
                              price = None, stopPrice = None, timeInForce = None\<rparr> w1 of
                        (Inl e, w2) \<Rightarrow>
                          if is_Exception e
                          then (case handle_error e w2 of
                                  (Inl e', w3) \<Rightarrow> (Inl e', w3)
                                | (Inr _, w3) \<Rightarrow>
                                    (Inr (), logger TwapSubOrderFailedContinuing w3))
                          else (Inl e, w2)
                      | (Inr r, w2) \<Rightarrow>
                          (Inr (), logger (TwapOrderPlaced (int i + 1) num_intervals r) w2)) of
                  (Inl e, w3) \<Rightarrow> (Inl e, w3)
                | (Inr _, w3) \<Rightarrow>
                    (case (if int i < num_intervals - 1 then sleep interval_seconds w3
                           else (Inr (), w3)) of
                       (Inl e, w4) \<Rightarrow> (Inl e, w4)
                     | (Inr _, w4) \<Rightarrow>
                         twap_loop c symb side quantity_per_order num_intervals
                           interval_seconds rest w4)))"

definition place_twap_order ::
    "client \<Rightarrow> string \<Rightarrow> string \<Rightarrow> pyfloat \<Rightarrow> int \<Rightarrow> int \<Rightarrow> world
      \<Rightarrow> (py_exception + unit option) \<times> world" where
  "place_twap_order c symb side total_quantity duration_minutes interval_seconds w =
     (if interval_seconds = 0 then except_Exception ZeroDivisionError w
      else let num_intervals = (duration_minutes * 60) div interval_seconds
           in if num_intervals = 0 then (Inr None, logger DurationTooShort w)
              else case int_to_float num_intervals of
                     Inl e \<Rightarrow> except_Exception e w
                   | Inr n \<Rightarrow>
                       (case float_truediv total_quantity n of
                          Inl e \<Rightarrow> except_Exception e w
                        | Inr quantity_per_order \<Rightarrow>
                            (case twap_loop c symb side quantity_per_order num_intervals
                                    interval_seconds [0..<nat num_intervals]
                                    (logger (StartingTwap num_intervals quantity_per_order
                                               interval_seconds) w) of
                               (Inl e, w1) \<Rightarrow> except_Exception e w1
                             | (Inr _, w1) \<Rightarrow> (Inr None, w1))))"

text \<open>
  The loop of \<open>place_grid_orders\<close> over \<open>range(num_levels)\<close>, with the list \<open>orders\<close> built so
  far. \<open>Inl e\<close>: the iteration raised \<open>e\<close> outside the inner \<open>try\<close> or in its handler;
  \<open>Inr None\<close>: the function returned after a failed validation; \<open>Inr (Some orders)\<close>: the
  loop ended.
\<close>

fun grid_loop ::
    "client \<Rightarrow> string \<Rightarrow> pyfloat \<Rightarrow> pyfloat \<Rightarrow> pyfloat \<Rightarrow> pyfloat \<Rightarrow> nat list \<Rightarrow> response list
      \<Rightarrow> world \<Rightarrow> (py_exception + response list option) \<times> world" where
  "grid_loop c symb lower_bound upper_bound price_step quantity_per_level [] orders w =
     (Inr (Some orders), w)"
| "grid_loop c symb lower_bound upper_bound price_step quantity_per_level (i # rest) orders w =
     (case int_to_float (int i) of
        Inl e \<Rightarrow> (Inl e, w)
      | Inr fi \<Rightarrow>
          (let order_price = float_add lower_bound (float_mul fi price_step)
           in case float_truediv (float_add lower_bound upper_bound) (Fin 2) of
                Inl e \<Rightarrow> (Inl e, w)
              | Inr midpoint \<Rightarrow>
                  (let order_side = (if float_lt order_price midpoint then ''BUY'' else ''SELL'')
                   in case call_validate_input c symb quantity_per_level (Some order_price) w of
                        (Inl e, w1) \<Rightarrow> (Inl e, w1)
                      | (Inr ok, w1) \<Rightarrow>
                          if \<not> ok
                          then (Inr None, logger (GridValidationFailedAborting order_price) w1)
                          else (case call_create_order c
                                       \<lparr>order_symbol = symb, order_side = order_side,
                                        order_type = FUTURE_ORDER_TYPE_LIMIT,
                                        quantity = quantity_per_level,
                                        price = Some order_price, stopPrice = None,
                                        timeInForce = Some ''GTC''\<rparr> w1 of
                                  (Inl e, w2) \<Rightarrow>
                                    if is_Exception e
                                    then (case handle_error e w2 of
                                            (Inl e', w3) \<Rightarrow> (Inl e', w3)
                                          | (Inr _, w3) \<Rightarrow>
                                              grid_loop c symb lower_bound upper_bound price_step
                                                quantity_per_level rest orders
                                                (logger (GridOrderFailedContinuing order_price)
                                                   w3))
                                    else (Inl e, w2)
                                | (Inr r, w2) \<Rightarrow>
                                    grid_loop c symb lower_bound upper_bound price_step
                                      quantity_per_level rest (orders @ [r])
                                      (logger (GridOrderPlaced order_side quantity_per_level
                                                 order_price r) w2)))))"

definition place_grid_orders ::
    "client \<Rightarrow> string \<Rightarrow> pyfloat \<Rightarrow> pyfloat \<Rightarrow> int \<Rightarrow> pyfloat \<Rightarrow> world
      \<Rightarrow> (py_exception + response list option) \<times> world" where
  "place_grid_orders c symb lower_bound upper_bound num_levels quantity_per_level w =
     (if num_levels \<le> 1 then (Inr None, logger GridLevelsTooFew w)
      else case int_to_float (num_levels - 1) of
             Inl e \<Rightarrow> except_Exception e w
           | Inr n \<Rightarrow>
               (case float_truediv (float_sub upper_bound lower_bound) n of
                  Inl e \<Rightarrow> except_Exception e w
                | Inr price_step \<Rightarrow>
                    (case grid_loop c symb lower_bound upper_bound price_step
                            quantity_per_level [0..<nat num_levels] [] w of
                       (Inl e, w1) \<Rightarrow> except_Exception e w1
                     | (Inr None, w1) \<Rightarrow> (Inr None, w1)
                     | (Inr (Some orders), w1) \<Rightarrow>
                         (Inr (Some orders), logger (GridOrdersPlaced (length orders)) w1))))"

section \<open>The validator's contract\<close>


text \<open>
  The two conditions on a number \<open>x\<close>: it lies within \<open>[lo, hi]\<close>, and \<open>(x - lo) % step\<close> is
  zero. Both are computed as the code computes them, on floats.
\<close>

definition in_range :: "pyfloat \<Rightarrow> rat \<Rightarrow> rat \<Rightarrow> bool" where
  "in_range x lo hi =
     (\<not> (float_lt x (float_of_decimal lo) \<or> float_gt x (float_of_decimal hi)))"

definition on_step :: "pyfloat \<Rightarrow> rat \<Rightarrow> rat \<Rightarrow> bool" where
  "on_step x lo step =
     (case float_mod (float_sub x (float_of_decimal lo)) (float_of_decimal step) of
        Inl _ \<Rightarrow> False
      | Inr r \<Rightarrow> \<not> float_nonzero r)"







section \<open>Observing an invocation\<close>

text \<open>The lookup that the validator makes: construct the singleton, then search its list.\<close>

definition cache_get ::
    "client \<Rightarrow> string \<Rightarrow> world \<Rightarrow> (py_exception + symbol_info option) \<times> world" where
  "cache_get c symb w =
     (case ExchangeInfo_new c w of
        (Inl e, w1) \<Rightarrow> (Inl e, w1)
      | (Inr _, w1) \<Rightarrow> (Inr (get_symbol_info w1 symb), w1))"

fun cache_gets ::
    "client \<Rightarrow> string list \<Rightarrow> world \<Rightarrow> (py_exception + symbol_info option) list \<times> world" where
  "cache_gets c [] w = ([], w)"
| "cache_gets c (s # ss) w =
     (case cache_get c s w of
        (r, w1) \<Rightarrow> (case cache_gets c ss w1 of (rs, w2) \<Rightarrow> (r # rs, w2)))"

text \<open>The orders of the order-creation calls in a trace, in the order of the calls.\<close>

fun orders_of :: "event list \<Rightarrow> order list" where
  "orders_of [] = []"
| "orders_of (CreateOrder ord r # es) = ord # orders_of es"
| "orders_of (_ # es) = orders_of es"

text \<open>The validator calls in a trace: symbol, quantity, price and outcome.\<close>

fun validations_of ::
    "event list \<Rightarrow> (string \<times> pyfloat \<times> pyfloat option \<times> (py_exception + bool)) list" where
  "validations_of [] = []"
| "validations_of (Validate s q p r # es) = (s, q, p, r) # validations_of es"
| "validations_of (_ # es) = validations_of es"

text \<open>
  Every order-creation call in a trace comes after a validator call that passed for the
  order's symbol and quantity, and for its price when the order carries one. \<open>seen\<close> holds
  the arguments of the validator calls that have passed so far.
\<close>

definition validated :: "(string \<times> pyfloat \<times> pyfloat option) list \<Rightarrow> order \<Rightarrow> bool" where
  "validated seen ord =
     (\<exists>(s, q, p) \<in> set seen.
        s = order_symbol ord \<and> q = quantity ord \<and> (price ord = None \<or> p = price ord))"

fun gateway_guarded :: "(string \<times> pyfloat \<times> pyfloat option) list \<Rightarrow> event list \<Rightarrow> bool" where
  "gateway_guarded seen [] = True"
| "gateway_guarded seen (Validate s q p (Inr True) # es) = gateway_guarded ((s, q, p) # seen) es"
| "gateway_guarded seen (CreateOrder ord r # es) = (validated seen ord \<and> gateway_guarded seen es)"
| "gateway_guarded seen (_ # es) = gateway_guarded seen es"

text \<open>The validator calls that have passed once the events of a trace have happened.\<close>

fun seen_after ::
    "(string \<times> pyfloat \<times> pyfloat option) list \<Rightarrow> event list
      \<Rightarrow> (string \<times> pyfloat \<times> pyfloat option) list" where
  "seen_after seen [] = seen"
| "seen_after seen (Validate s q p (Inr True) # es) = seen_after ((s, q, p) # seen) es"
| "seen_after seen (_ # es) = seen_after seen es"

text \<open>The calls in a trace, of the validator and of the gateway, without the other events.\<close>

fun is_call :: "event \<Rightarrow> bool" where
  "is_call (Validate _ _ _ _) = True"
| "is_call (CreateOrder _ _) = True"
| "is_call _ = False"

definition calls_of :: "event list \<Rightarrow> event list" where
  "calls_of es = filter is_call es"

text \<open>One invocation of a strategy, and the world it leaves.\<close>

datatype invocation =
    Market string string pyfloat
  | Limit string string pyfloat pyfloat string
  | StopLimit string string pyfloat pyfloat pyfloat
  | Bracket string string pyfloat pyfloat pyfloat
  | Twap string string pyfloat int int
  | Grid string pyfloat pyfloat int pyfloat

fun invoke :: "client \<Rightarrow> invocation \<Rightarrow> world \<Rightarrow> world" where
  "invoke c (Market symb side qty) w = snd (place_market_order c symb side qty w)"
| "invoke c (Limit symb side qty prc tif) w = snd (place_limit_order c symb side qty prc tif w)"
| "invoke c (StopLimit symb side qty stop_price limit_price) w =
     snd (place_stop_limit_order c symb side qty stop_price limit_price w)"
| "invoke c (Bracket symb side qty take_profit stop_loss) w =
     snd (place_oco_order c symb side qty take_profit stop_loss w)"
| "invoke c (Twap symb side total_quantity duration_minutes interval_seconds) w =
     snd (place_twap_order c symb side total_quantity duration_minutes interval_seconds w)"
| "invoke c (Grid symb lower_bound upper_bound num_levels quantity_per_level) w =
     snd (place_grid_orders c symb lower_bound upper_bound num_levels quantity_per_level w)"

text \<open>The events of an invocation: those it adds to an empty trace.\<close>

definition events_of :: "client \<Rightarrow> invocation \<Rightarrow> world \<Rightarrow> event list" where
  "events_of c iv w = trace (invoke c iv (w\<lparr>trace := []\<rparr>))"

text \<open>
  A gateway on which every failed call raises an exception that \<open>handle_error\<close> logs: a
  subclass of \<open>Exception\<close> other than \<open>BinanceRequestException\<close>.
\<close>

definition gateway_errors_logged :: "client \<Rightarrow> bool" where
  "gateway_errors_logged c =
     (\<forall>n ord e. futures_create_order c n ord = Inl e \<longrightarrow>
        is_Exception e \<and> \<not> is_BinanceRequestException e)"

section \<open>Exchanges to run the code on\<close>

text \<open>
  The \<open>MockClient\<close> of \<open>tests/test_validation.py\<close> with its one symbol, and the
  \<open>MockResponse\<close> of \<open>tests/test_limit_orders.py\<close> as the answer to every order.
\<close>

definition test_exchange_info :: exchange_info where
  "test_exchange_info =
     \<lparr>symbols =
        [\<lparr>symbol = ''BTCUSDT'',
          filters = [PRICE_FILTER (1 / 100) 100000 (1 / 100), LOT_SIZE (1 / 1000) 1000 (1 / 1000)]\<rparr>]\<rparr>"

definition MockResponse :: response where
  "MockResponse = \<lparr>orderId = 456, status = ''NEW''\<rparr>"

definition MockClient :: client where
  "MockClient =
     \<lparr>futures_exchange_info = (\<lambda>n. Inr test_exchange_info),
      futures_create_order = (\<lambda>n ord. Inr MockResponse),
      inner_handle_error = True\<rparr>"

text \<open>
  A second exchange, whose bounds and increments are binary fractions: a symbol with
  quantities \<open>1, 2, ..., 8\<close> and prices \<open>50, 100, ..., 1000\<close>.
\<close>

definition demo_exchange_info :: exchange_info where
  "demo_exchange_info =
     \<lparr>symbols =
        [\<lparr>symbol = ''ETHUSDT'',
          filters = [OTHER_FILTER ''MARKET_LOT_SIZE'', PRICE_FILTER 50 1000 50, LOT_SIZE 1 8 1]\<rparr>]\<rparr>"

definition demo_client :: client where
  "demo_client =
     \<lparr>futures_exchange_info = (\<lambda>n. Inr demo_exchange_info),
      futures_create_order = (\<lambda>n ord. Inr \<lparr>orderId = int n, status = ''NEW''\<rparr>),
      inner_handle_error = False\<rparr>"

text \<open>The same exchange with a gateway that rejects the first order and accepts the later ones.\<close>

definition rejecting_client :: client where
  "rejecting_client =
     demo_client
       \<lparr>futures_create_order :=
          (\<lambda>n ord. if n = 0 then Inl (BinanceAPIException (- 2019) ''Margin is insufficient.'')
                    else Inr \<lparr>orderId = int n, status = ''NEW''\<rparr>)\<rparr>"

text \<open>
  The same exchange with a gateway whose answer to the first order cannot be parsed, which
  the exchange library reports as a \<open>BinanceRequestException\<close>.
\<close>

definition garbling_client :: client where
  "garbling_client =
     demo_client
       \<lparr>futures_create_order :=
          (\<lambda>n ord. if n = 0 then Inl (BinanceRequestException ''Invalid Response'')
                    else Inr \<lparr>orderId = int n, status = ''NEW''\<rparr>)\<rparr>"

text \<open>The process after the demo exchange's metadata has been fetched.\<close>

definition demo_world :: world where
  "demo_world =
     \<lparr>instance_set = True, info = Some demo_exchange_info, fetches = 1, orders_sent = 0,
      trace = []\<rparr>"

section \<open>Facts about the float model\<close>

lemma bitlen_upper: "n < 2 ^ bitlen n"
proof (induction n rule: bitlen.induct)
  case (1 n)
  show ?case
  proof (cases "n = 0")
    case True
    then show ?thesis by (simp add: bitlen.simps)
  next
    case False
    with 1 have "n div 2 < 2 ^ bitlen (n div 2)" by simp
    then have "n < 2 * 2 ^ bitlen (n div 2)" by linarith
    with False show ?thesis by (subst bitlen.simps) simp
  qed
qed

lemma bitlen_lower: "0 < n \<Longrightarrow> 2 ^ (bitlen n - 1) \<le> n"
proof (induction n rule: bitlen.induct)
  case (1 n)
  show ?case
  proof (cases "n div 2 = 0")
    case True
    with 1(2) have "n = 1" by linarith
    then show ?thesis by (simp add: bitlen.simps)
  next
    case False
    with 1 have ih: "2 ^ (bitlen (n div 2) - 1) \<le> n div 2" by simp
    from False have pos: "0 < bitlen (n div 2)" by (subst bitlen.simps) simp
    have "bitlen n = Suc (bitlen (n div 2))" using 1(2) by (subst bitlen.simps) simp
    then have "(2::nat) ^ (bitlen n - 1) = 2 * 2 ^ (bitlen (n div 2) - 1)"
      using pos by (cases "bitlen (n div 2)") simp_all
    with ih show ?thesis by linarith
  qed
qed

lemma bitlen_pos: "0 < n \<Longrightarrow> 0 < bitlen n"
  by (subst bitlen.simps) simp

lemma pow2_pos: "0 < pow2 e"
  by (simp add: pow2_def)

lemma pow2_nat: "pow2 (int k) = 2 ^ k"
  by (simp add: pow2_def)

lemma pow2_neg_nat: "pow2 (- int k) = 1 / 2 ^ k"
  by (simp add: pow2_def power_int_minus field_simps)

lemma pow2_less_iff: "pow2 a < pow2 b \<longleftrightarrow> a < b"
  unfolding pow2_def
  by (metis less_irrefl linorder_neqE_linordered_idom one_less_numeral_iff order_less_trans power_int_strict_increasing semiring_norm(76))

lemma pow2_le_iff: "pow2 a \<le> pow2 b \<longleftrightarrow> a \<le> b"
  using pow2_less_iff[of b a] by (auto simp: not_less[symmetric])


lemma of_nat_pow2_le: "(2::nat) ^ k \<le> n \<Longrightarrow> (2::rat) ^ k \<le> of_nat n"
proof -
  assume "(2::nat) ^ k \<le> n"
  then have "(of_nat ((2::nat) ^ k) :: rat) \<le> of_nat n" by (simp only: of_nat_le_iff)
  then show ?thesis by simp
qed

lemma of_nat_le_pow2: "n \<le> (2::nat) ^ k \<Longrightarrow> of_nat n \<le> (2::rat) ^ k"
proof -
  assume "n \<le> (2::nat) ^ k"
  then have "(of_nat n :: rat) \<le> of_nat ((2::nat) ^ k)" by (simp only: of_nat_le_iff)
  then show ?thesis by simp
qed

lemma ilog2_ge1:
  assumes "1 \<le> x"
  shows "pow2 (ilog2 x) \<le> x \<and> x < pow2 (ilog2 x + 1)"
proof -
  define n where "n = nat \<lfloor>x\<rfloor>"
  have fl: "1 \<le> \<lfloor>x\<rfloor>" using assms by simp
  then have npos: "0 < n" by (simp add: n_def)
  have eq: "(of_nat n :: rat) = of_int \<lfloor>x\<rfloor>" using fl by (simp add: n_def)
  have lo: "of_nat n \<le> x" unfolding eq by (rule of_int_floor_le)
  have hi: "x < of_nat n + 1" unfolding eq by linarith
  have bpos: "0 < bitlen n" using npos by (rule bitlen_pos)
  have e: "ilog2 x = int (bitlen n - 1)"
    using assms bpos by (simp add: ilog2_def n_def)
  have e1: "ilog2 x + 1 = int (bitlen n)" using e bpos by simp
  have p1: "(2::rat) ^ (bitlen n - 1) \<le> of_nat n"
    using bitlen_lower[OF npos] by (rule of_nat_pow2_le)
  have A: "pow2 (ilog2 x) \<le> x" unfolding e pow2_nat using p1 lo by (rule order_trans)
  have "Suc n \<le> 2 ^ bitlen n" using bitlen_upper[of n] by simp
  then have "of_nat (Suc n) \<le> (2::rat) ^ bitlen n" by (rule of_nat_le_pow2)
  then have p2: "of_nat n + 1 \<le> (2::rat) ^ bitlen n" by (simp only: of_nat_Suc)
  have B: "x < pow2 (ilog2 x + 1)" unfolding e1 pow2_nat using hi p2 by (rule less_le_trans)
  from A B show ?thesis by simp
qed

lemma ilog2_lt1:
  assumes "0 < x" and "x < 1"
  shows "pow2 (ilog2 x) \<le> x \<and> x < pow2 (ilog2 x + 1)"
proof -
  define y where "y = 1 / x"
  define c where "c = \<lceil>y\<rceil>"
  define n where "n = nat c"
  define k where "k = bitlen (n - 1)"
  have y1: "1 < y" using assms by (simp add: y_def)
  have c2: "2 \<le> c" unfolding c_def using y1 by linarith
  have yc: "y \<le> of_int c" unfolding c_def by (rule le_of_int_ceiling)
  have cy: "of_int c - 1 < y" unfolding c_def by linarith
  have n2: "2 \<le> n" using c2 by (simp add: n_def)
  have eq: "(of_nat n :: rat) = of_int c" using c2 by (simp add: n_def)
  have e: "ilog2 x = - int k"
    using assms(2) by (simp add: ilog2_def k_def n_def c_def y_def)
  have kpos: "0 < k" unfolding k_def using n2 by (intro bitlen_pos) simp
  have "n - 1 < 2 ^ k" unfolding k_def by (rule bitlen_upper)
  then have "n \<le> 2 ^ k" by simp
  then have "of_nat n \<le> (2::rat) ^ k" by (rule of_nat_le_pow2)
  with yc have up: "y \<le> 2 ^ k" unfolding eq by (rule order_trans)
  have "2 ^ (k - 1) \<le> n - 1" unfolding k_def using n2 by (intro bitlen_lower) simp
  then have "(2::rat) ^ (k - 1) \<le> of_nat (n - 1)" by (rule of_nat_pow2_le)
  also have "of_nat (n - 1) = (of_nat n :: rat) - 1" using n2 by (simp add: of_nat_diff)
  finally have "(2::rat) ^ (k - 1) \<le> of_int c - 1" unfolding eq .
  then have lo: "2 ^ (k - 1) < y" using cy by (rule le_less_trans)
  have pk: "(0::rat) < 2 ^ k" and pk1: "(0::rat) < 2 ^ (k - 1)" by simp_all
  have "1 \<le> 2 ^ k * x"
    using up assms(1) unfolding y_def by (simp add: pos_divide_le_eq mult.commute)
  then have A: "pow2 (- int k) \<le> x"
    unfolding pow2_neg_nat using pk by (simp add: pos_divide_le_eq mult.commute)
  have "2 ^ (k - 1) * x < 1"
    using lo assms(1) unfolding y_def by (simp add: pos_less_divide_eq)
  then have "x < 1 / 2 ^ (k - 1)"
    using pk1 by (simp add: pos_less_divide_eq mult.commute)
  moreover have "- int k + 1 = - int (k - 1)" using kpos by simp
  ultimately have B: "x < pow2 (- int k + 1)" by (simp only: pow2_neg_nat)
  from A B show ?thesis unfolding e by simp
qed

lemma ilog2_bounds:
  assumes "0 < x"
  shows "pow2 (ilog2 x) \<le> x \<and> x < pow2 (ilog2 x + 1)"
proof (cases "1 \<le> x")
  case True
  then show ?thesis by (rule ilog2_ge1)
next
  case False
  then have "x < 1" by simp
  with assms show ?thesis by (rule ilog2_lt1)
qed

lemma ilog2_eqI:
  assumes "pow2 e \<le> x" and "x < pow2 (e + 1)"
  shows "ilog2 x = e"
proof -
  have pos: "0 < x" using pow2_pos[of e] assms(1) by (rule less_le_trans)
  from ilog2_bounds[OF pos] have b1: "pow2 (ilog2 x) \<le> x" and b2: "x < pow2 (ilog2 x + 1)"
    by simp_all
  have "pow2 e < pow2 (ilog2 x + 1)" using assms(1) b2 by (rule le_less_trans)
  then have l1: "e < ilog2 x + 1" by (simp only: pow2_less_iff)
  have "pow2 (ilog2 x) < pow2 (e + 1)" using b1 assms(2) by (rule le_less_trans)
  then have l2: "ilog2 x < e + 1" by (simp only: pow2_less_iff)
  from l1 l2 show ?thesis by simp
qed

lemma round_half_even_eqI:
  assumes "\<bar>x - of_int m\<bar> < 1 / 2"
  shows "round_half_even x = m"
proof -
  from assms have up: "x - of_int m < 1 / 2" and dn: "- (1 / 2) < x - of_int m"
    unfolding abs_less_iff by simp_all
  show ?thesis
  proof (cases "of_int m \<le> x")
    case True
    have "\<lfloor>x\<rfloor> = m"
    proof (rule floor_unique)
      show "of_int m \<le> x" by (rule True)
      show "x < of_int m + 1" using up by linarith
    qed
    then show ?thesis using up by (simp add: round_half_even_def Let_def)
  next
    case False
    have f: "\<lfloor>x\<rfloor> = m - 1"
    proof (rule floor_unique)
      show "of_int (m - 1) \<le> x" using dn by simp
      show "x < of_int (m - 1) + 1" using False by simp
    qed
    have h: "1 / 2 < x - of_int (m - 1)" using dn by simp
    then have g: "\<not> x - of_int (m - 1) < 1 / 2" by simp
    show ?thesis unfolding round_half_even_def Let_def f using g h by simp
  qed
qed

lemma rnd_eqI:
  assumes "pow2 e \<le> \<bar>x\<bar>" and "\<bar>x\<bar> < pow2 (e + 1)" and "- 1022 \<le> e" and "e < 1023"
    and "\<bar>x / pow2 (e - 52) - of_int m\<bar> < 1 / 2"
    and "y = of_int m * pow2 (e - 52)"
  shows "rnd x = Fin y"
proof -
  have "0 < \<bar>x\<bar>" using pow2_pos[of e] assms(1) by (rule less_le_trans)
  then have nz: "x \<noteq> 0" by simp
  have il: "ilog2 \<bar>x\<bar> = e" using assms(1,2) by (rule ilog2_eqI)
  have rh: "round_half_even (x / pow2 (e - 52)) = m" using assms(5) by (rule round_half_even_eqI)
  have mx: "max e (- 1022) = e" using assms(3) by simp
  show ?thesis unfolding rnd_def Let_def il mx rh using nz assms(4,6) by simp
qed

lemma pow2_numeral [simp]: "pow2 (numeral k) = 2 ^ numeral k"
  by (simp add: pow2_def)

lemma pow2_neg_numeral [simp]: "pow2 (- numeral k) = 1 / 2 ^ numeral k"
  by (simp add: pow2_def power_int_minus field_simps)

lemma pow2_0 [simp]: "pow2 0 = 1"
  by (simp add: pow2_def)

lemma pow2_1 [simp]: "pow2 1 = 2"
  by (simp add: pow2_def)

lemma trunc_eqI: "0 \<le> q \<Longrightarrow> of_int t \<le> q \<Longrightarrow> q < of_int t + 1 \<Longrightarrow> trunc q = t"
  unfolding trunc_def by (simp add: floor_unique)

lemma fmod_eqI:
  assumes "b \<noteq> 0" and "0 \<le> a / b" and "of_int t \<le> a / b" and "a / b < of_int t + 1"
    and "r = a - b * of_int t"
  shows "fmod (Fin a) (Fin b) = Fin r"
  using assms trunc_eqI[of "a / b" t] by simp

lemma pow2_add: "pow2 (a + b) = pow2 a * pow2 b"
  by (simp add: pow2_def power_int_add)

lemma pow2_minus: "pow2 (- a) = 1 / pow2 a"
  by (simp add: pow2_def power_int_minus field_simps)

lemma rnd_of_nat:
  assumes "n < 2 ^ 53"
  shows "rnd (of_nat n) = Fin (of_nat n)"
proof (cases "n = 0")
  case True
  then show ?thesis by (simp add: rnd_def)
next
  case False
  define x :: rat where "x = of_nat n"
  define e where "e = ilog2 x"
  have x1: "1 \<le> x" using False by (simp add: x_def)
  then have xpos: "0 < x" by simp
  have ax: "\<bar>x\<bar> = x" using xpos by simp
  from ilog2_bounds[OF xpos] have lo: "pow2 e \<le> x" and hi: "x < pow2 (e + 1)"
    by (simp_all add: e_def)
  have "pow2 0 < pow2 (e + 1)" using x1 hi by simp
  then have "0 < e + 1" by (simp only: pow2_less_iff)
  then have e0: "0 \<le> e" by simp
  have "x < 2 ^ 53" using assms unfolding x_def
    by (metis of_nat_less_iff of_nat_numeral of_nat_power)
  then have "x < pow2 53" by simp
  with lo have "pow2 e < pow2 53" by (rule le_less_trans)
  then have e53: "e < 53" by (simp only: pow2_less_iff)
  define k where "k = nat (52 - e)"
  have ke: "int k = 52 - e" using e53 by (simp add: k_def)
  have p: "pow2 (e - 52) = 1 / 2 ^ k"
  proof -
    have "e - 52 = - int k" using ke by simp
    then show ?thesis by (simp only: pow2_neg_nat)
  qed
  define m where "m = int (n * 2 ^ k)"
  have xm: "x / pow2 (e - 52) = of_int m" by (simp add: p m_def x_def)
  show ?thesis unfolding x_def[symmetric]
  proof (rule rnd_eqI[where e = e and m = m])
    show "pow2 e \<le> \<bar>x\<bar>" unfolding ax by (rule lo)
    show "\<bar>x\<bar> < pow2 (e + 1)" unfolding ax by (rule hi)
    show "- 1022 \<le> e" using e0 by simp
    show "e < 1023" using e53 by simp
    show "\<bar>x / pow2 (e - 52) - of_int m\<bar> < 1 / 2" unfolding xm by simp
    show "x = of_int m * pow2 (e - 52)" unfolding xm[symmetric] using pow2_pos[of "e - 52"] by simp
  qed
qed

lemma rnd_numeral [simp]:
  "numeral k < (9007199254740992::nat) \<Longrightarrow> rnd (numeral k) = Fin (numeral k)"
  using rnd_of_nat[of "numeral k"] by simp

lemma rnd_0 [simp]: "rnd 0 = Fin 0"
  by (simp add: rnd_def)

lemma rnd_1 [simp]: "rnd 1 = Fin 1"
  using rnd_of_nat[of 1] by simp

lemma trunc_0 [simp]: "trunc 0 = 0"
  by (simp add: trunc_def)

lemma trunc_1 [simp]: "trunc 1 = 1"
  by (simp add: trunc_def)

lemma trunc_numeral [simp]: "trunc (numeral k) = numeral k"
  by (simp add: trunc_def)

lemma trunc_divide_numeral [simp]: "trunc (numeral a / numeral b) = numeral a div numeral b"
proof -
  have "\<lfloor>(numeral a :: rat) / numeral b\<rfloor> = numeral a div numeral b"
    using floor_divide_of_int_eq[of "numeral a" "numeral b", where ?'a = rat] by simp
  then show ?thesis by (simp add: trunc_def)
qed

lemma trunc_one_divide_numeral [simp]: "trunc (1 / numeral b) = 1 div numeral b"
proof -
  have "\<lfloor>(1 :: rat) / numeral b\<rfloor> = 1 div numeral b"
    using floor_divide_of_int_eq[of 1 "numeral b", where ?'a = rat] by simp
  then show ?thesis by (simp add: trunc_def)
qed

section \<open>Facts about the validator\<close>

lemmas float_eval = in_range_def on_step_def float_of_decimal_def float_gt_def float_sub_def
  float_mod_def Let_def








lemmas run_eval = call_validate_input_def validate_input_def
  ExchangeInfo_new_def get_symbol_info_def call_create_order_def emit_def logger_def
  except_Exception_def truthy_def sleep_def time_sleep_max_def
  FUTURE_ORDER_TYPE_MARKET_def FUTURE_ORDER_TYPE_LIMIT_def FUTURE_ORDER_TYPE_STOP_def






lemma rnd_5_2: "rnd (5 / 2) = Fin (5 / 2)"
  by (rule rnd_eqI[where e = 1 and m = 5629499534213120]) simp_all


text \<open>The floats of the test suite's exchange and of its valid order.\<close>

lemma float_0_001: "rnd (1 / 1000) = Fin (1152921504606847 / 1152921504606846976)"
  by (rule rnd_eqI[where e = "- 10" and m = 4611686018427388]) simp_all

lemma float_0_002: "rnd (1 / 500) = Fin (1152921504606847 / 576460752303423488)"
  by (rule rnd_eqI[where e = "- 9" and m = 4611686018427388]) simp_all

lemma float_0_01: "rnd (1 / 100) = Fin (5764607523034235 / 576460752303423488)"
  by (rule rnd_eqI[where e = "- 7" and m = 5764607523034235]) simp_all

lemma float_0_002_minus_0_001:
  "float_sub (Fin (1152921504606847 / 576460752303423488))
     (Fin (1152921504606847 / 1152921504606846976)) =
   Fin (1152921504606847 / 1152921504606846976)"
  unfolding float_sub_def float_neg.simps float_add.simps
  by (rule rnd_eqI[where e = "- 10" and m = 4611686018427388]) simp_all

lemma float_0_001_mod_0_001:
  "float_mod (Fin (1152921504606847 / 1152921504606846976))
     (Fin (1152921504606847 / 1152921504606846976)) = Inr (Fin 0)"
proof -
  have "fmod (Fin (1152921504606847 / 1152921504606846976))
      (Fin (1152921504606847 / 1152921504606846976)) = Fin 0"
    by (rule fmod_eqI[where t = 1]) simp_all
  then show ?thesis by (simp add: float_mod_def)
qed

lemma float_65000_minus_0_01:
  "float_sub (Fin 65000) (Fin (5764607523034235 / 576460752303423488)) =
   Fin (8933530601290465 / 137438953472)"
  unfolding float_sub_def float_neg.simps float_add.simps
  by (rule rnd_eqI[where e = 15 and m = 8933530601290465]) simp_all

lemma float_64999_99_mod_0_01:
  "float_mod (Fin (8933530601290465 / 137438953472))
     (Fin (5764607523034235 / 576460752303423488)) =
   Inr (Fin (2882303760539915 / 288230376151711744))"
proof -
  have "fmod (Fin (8933530601290465 / 137438953472))
      (Fin (5764607523034235 / 576460752303423488)) =
      Fin (2882303760539915 / 288230376151711744)"
    by (rule fmod_eqI[where t = 6499998]) simp_all
  then show ?thesis by (simp add: float_mod_def)
qed

lemma float_0_005: "rnd (1 / 200) = Fin (5764607523034235 / 1152921504606846976)"
  by (rule rnd_eqI[where e = "- 8" and m = 5764607523034235]) simp_all

lemmas test_eval = MockClient_def test_exchange_info_def MockResponse_def initial_world_def

section \<open>The claims about the validator\<close>




text \<open>
  C4. The price checks do not run for a price of zero, which the code takes for an absent
  one. On the exchange of the test suite, whose minimum price is \<open>0.01\<close>, the call with the
  valid quantity \<open>0.002\<close> and the price \<open>0.0\<close> passes and logs nothing, while the price
  \<open>0.005\<close> of \<open>test_invalid_price_below_min\<close>, which is also below the minimum, is rejected
  with the price range error.
\<close>

theorem validate_input_zero_price_accepted:
  "validate_input MockClient ''BTCUSDT'' (float_of_decimal (1 / 500))
     (Some (float_of_decimal 0)) initial_world =
   (Inr True,
    \<lparr>instance_set = True, info = Some test_exchange_info, fetches = 1, orders_sent = 0,
     trace = [Fetch]\<rparr>) \<and>
   validate_input MockClient ''BTCUSDT'' (float_of_decimal (1 / 500))
     (Some (float_of_decimal (1 / 200))) initial_world =
   (Inr False,
    \<lparr>instance_set = True, info = Some test_exchange_info, fetches = 1, orders_sent = 0,
     trace = [Fetch,
              Log (InvalidPrice (Fin (5764607523034235 / 1152921504606846976))
                     (Fin (5764607523034235 / 576460752303423488)) (Fin 100000))]\<rparr>)"
  by (simp add: run_eval test_eval float_of_decimal_def float_gt_def Let_def
      float_0_001 float_0_002 float_0_005 float_0_01 float_0_002_minus_0_001
      float_0_001_mod_0_001)




text \<open>
  C6. The step and tick checks are computed on binary floats, and the check of the price tick
  has a false negative on the repository's own test of a valid input
  (\<open>test_valid_input\<close> of \<open>tests/test_validation.py\<close>): with minimum price and tick size
  \<open>0.01\<close>, the price \<open>65000.00\<close> is an exact decimal multiple of the tick above the
  minimum, yet \<open>(65000.0 - 0.01) % 0.01\<close> is \<open>0.009999999996609648\<close> in binary floating
  point, so the validator logs a tick error and returns \<open>False\<close>.
\<close>

theorem validate_input_test_valid_input_rejected:
  "validate_input MockClient ''BTCUSDT'' (float_of_decimal (1 / 500))
     (Some (float_of_decimal 65000)) initial_world =
   (Inr False,
    \<lparr>instance_set = True, info = Some test_exchange_info, fetches = 1, orders_sent = 0,
     trace = [Fetch,
              Log (InvalidPriceTick (Fin 65000) (Fin (5764607523034235 / 576460752303423488)))]\<rparr>)"
  by (simp add: run_eval test_eval float_of_decimal_def float_gt_def Let_def
      float_0_001 float_0_002 float_0_01 float_0_002_minus_0_001 float_0_001_mod_0_001
      float_65000_minus_0_01 float_64999_99_mod_0_01)

section \<open>The metadata cache\<close>

lemma ExchangeInfo_new_cached: "instance_set w \<Longrightarrow> ExchangeInfo_new c w = (Inr (), w)"
  by (simp add: ExchangeInfo_new_def)

lemma ExchangeInfo_new_instance_set: "instance_set (snd (ExchangeInfo_new c w))"
  by (simp add: ExchangeInfo_new_def Let_def emit_def logger_def
      split: sum.splits)

lemma ExchangeInfo_new_fetches:
  "fetches (snd (ExchangeInfo_new c w)) = (if instance_set w then fetches w else fetches w + 1)"
  by (simp add: ExchangeInfo_new_def Let_def emit_def logger_def
      split: sum.splits)

lemma cache_get_cached:
  "instance_set w \<Longrightarrow> cache_get c symb w = (Inr (get_symbol_info w symb), w)"
  by (simp add: cache_get_def ExchangeInfo_new_cached)

lemma cache_get_snd: "snd (cache_get c symb w) = snd (ExchangeInfo_new c w)"
  by (simp add: cache_get_def split: prod.splits sum.splits)

lemma cache_gets_cached:
  "instance_set w \<Longrightarrow> cache_gets c syms w = (map (\<lambda>s. Inr (get_symbol_info w s)) syms, w)"
  by (induction syms) (simp_all add: cache_get_cached)

lemma cache_gets_fetches:
  "fetches (snd (cache_gets c syms w)) =
     (if instance_set w \<or> syms = [] then fetches w else fetches w + 1)"
proof (cases syms)
  case Nil
  then show ?thesis by simp
next
  case (Cons s ss)
  obtain r w1 where g: "cache_get c s w = (r, w1)" by (cases "cache_get c s w")
  then have w1: "w1 = snd (ExchangeInfo_new c w)" using cache_get_snd[of c s w] by simp
  then have i: "instance_set w1" by (simp add: ExchangeInfo_new_instance_set)
  have "snd (cache_gets c syms w) = w1"
    using Cons g cache_gets_cached[OF i, of c ss] by simp
  then show ?thesis using Cons w1 by (simp add: ExchangeInfo_new_fetches)
qed

lemma get_symbol_info_absent:
  "info w = Some i \<Longrightarrow> symb \<notin> symbol ` set (symbols i) \<Longrightarrow> get_symbol_info w symb = None"
  by (auto simp: get_symbol_info_def find_None_iff)

text \<open>
  C9. The exchange metadata is fetched at most once per process: from the start of the
  process, any sequence of lookups makes at most one fetch. Once the singleton exists, every
  lookup is answered from the cached list and leaves the process as it was, with no further
  fetch: any sequence of lookups returns, for each symbol, what the cached list holds for it,
  so \<open>n\<close> lookups of one symbol return \<open>n\<close> times the same record, and the lookup of a
  symbol that is not in the cached list returns \<open>None\<close> without a fetch. After the first
  lookup the singleton exists, and no sequence of lookups adds more than one fetch.
\<close>

theorem exchange_info_fetched_at_most_once:
  "fetches (snd (cache_gets c syms initial_world)) \<le> 1 \<and>
   (instance_set w \<longrightarrow>
      cache_gets c syms w = (map (\<lambda>s. Inr (get_symbol_info w s)) syms, w) \<and>
      cache_gets c (replicate n symb) w = (replicate n (Inr (get_symbol_info w symb)), w) \<and>
      (\<forall>i. info w = Some i \<and> symb \<notin> symbol ` set (symbols i) \<longrightarrow>
           cache_get c symb w = (Inr None, w))) \<and>
   instance_set (snd (cache_gets c (symb # syms) w)) \<and>
   fetches (snd (cache_gets c syms w)) \<le> fetches w + 1"
proof (intro conjI impI allI)
  show "fetches (snd (cache_gets c syms initial_world)) \<le> 1"
    by (simp add: cache_gets_fetches) (simp add: initial_world_def)
next
  assume "instance_set w"
  then show "cache_gets c syms w = (map (\<lambda>s. Inr (get_symbol_info w s)) syms, w)"
    by (rule cache_gets_cached)
next
  assume "instance_set w"
  then show "cache_gets c (replicate n symb) w = (replicate n (Inr (get_symbol_info w symb)), w)"
    by (simp add: cache_gets_cached map_replicate_const)
next
  fix i
  assume "instance_set w" and "info w = Some i \<and> symb \<notin> symbol ` set (symbols i)"
  then show "cache_get c symb w = (Inr None, w)"
    by (simp add: cache_get_cached get_symbol_info_absent)
next
  obtain r w1 where g: "cache_get c symb w = (r, w1)" by (cases "cache_get c symb w")
  then have "w1 = snd (ExchangeInfo_new c w)" using cache_get_snd[of c symb w] by simp
  then have i: "instance_set w1" by (simp add: ExchangeInfo_new_instance_set)
  show "instance_set (snd (cache_gets c (symb # syms) w))"
    using g i cache_gets_cached[OF i, of c syms] by simp
next
  show "fetches (snd (cache_gets c syms w)) \<le> fetches w + 1"
    by (simp add: cache_gets_fetches)
qed

theorem exchange_info_fetched_at_most_once_witness:
  "instance_set (snd (cache_get MockClient ''BTCUSDT'' initial_world)) \<and>
   fetches (snd (cache_get MockClient ''BTCUSDT'' initial_world)) = 1 \<and>
   info (snd (cache_get MockClient ''BTCUSDT'' initial_world)) = Some test_exchange_info \<and>
   ''XYZUSDT'' \<notin> symbol ` set (symbols test_exchange_info) \<and>
   cache_gets MockClient [''BTCUSDT'', ''XYZUSDT'', ''BTCUSDT'']
       (snd (cache_get MockClient ''BTCUSDT'' initial_world)) =
     ([Inr (Some (hd (symbols test_exchange_info))), Inr None,
       Inr (Some (hd (symbols test_exchange_info)))],
      snd (cache_get MockClient ''BTCUSDT'' initial_world)) \<and>
   cache_get MockClient ''XYZUSDT'' (snd (cache_get MockClient ''BTCUSDT'' initial_world)) =
     (Inr None, snd (cache_get MockClient ''BTCUSDT'' initial_world)) \<and>
   fetches (snd (cache_gets MockClient [''BTCUSDT'', ''XYZUSDT'', ''BTCUSDT''] initial_world)) = 1"
proof -
  define w where "w = snd (cache_get MockClient ''BTCUSDT'' initial_world)"
  have w: "w = \<lparr>instance_set = True, info = Some test_exchange_info, fetches = 1,
      orders_sent = 0, trace = [Fetch]\<rparr>"
    by (simp add: w_def cache_get_def run_eval MockClient_def initial_world_def)
  have i: "instance_set w" and f: "fetches w = 1" and n: "info w = Some test_exchange_info"
    by (simp_all add: w)
  have a: "''XYZUSDT'' \<notin> symbol ` set (symbols test_exchange_info)"
    by (simp add: test_exchange_info_def)
  note T = exchange_info_fetched_at_most_once[where c = MockClient and w = w
      and syms = "[''BTCUSDT'', ''XYZUSDT'', ''BTCUSDT'']" and symb = "''XYZUSDT''" and n = 0]
  have g: "cache_gets MockClient [''BTCUSDT'', ''XYZUSDT'', ''BTCUSDT''] w =
     (map (\<lambda>s. Inr (get_symbol_info w s)) [''BTCUSDT'', ''XYZUSDT'', ''BTCUSDT''], w)"
    using T i by blast
  have x: "cache_get MockClient ''XYZUSDT'' w = (Inr None, w)"
    using T i n a by blast
  have l: "fetches (snd (cache_gets MockClient [''BTCUSDT'', ''XYZUSDT'', ''BTCUSDT''] initial_world)) \<le> 1"
    using T by blast
  have l2: "fetches (snd (cache_gets MockClient [''BTCUSDT'', ''XYZUSDT'', ''BTCUSDT''] initial_world)) = 1"
    by (simp add: cache_get_def run_eval MockClient_def initial_world_def)
  have s: "get_symbol_info w ''BTCUSDT'' = Some (hd (symbols test_exchange_info))"
      "get_symbol_info w ''XYZUSDT'' = None"
    by (simp_all add: w get_symbol_info_def test_exchange_info_def)
  show ?thesis
    unfolding w_def[symmetric] using i f n a g x l2 s by simp
qed

section \<open>Facts about traces and strategies\<close>

lemma calls_of_append [simp]: "calls_of (xs @ ys) = calls_of xs @ calls_of ys"
  by (simp add: calls_of_def)

lemma calls_of_Nil [simp]: "calls_of [] = []"
  by (simp add: calls_of_def)

lemma calls_of_Cons: "calls_of (e # es) = (if is_call e then e # calls_of es else calls_of es)"
  by (simp add: calls_of_def)

lemma orders_of_append: "orders_of (xs @ ys) = orders_of xs @ orders_of ys"
  by (induction xs rule: orders_of.induct) simp_all

lemma orders_of_calls_of: "orders_of (calls_of es) = orders_of es"
  by (induction es rule: orders_of.induct) (simp_all add: calls_of_Cons)

lemma validations_of_append: "validations_of (xs @ ys) = validations_of xs @ validations_of ys"
  by (induction xs rule: validations_of.induct) simp_all

lemma validations_of_calls_of: "validations_of (calls_of es) = validations_of es"
  by (induction es rule: validations_of.induct) (simp_all add: calls_of_Cons)

lemma seen_after_append: "seen_after seen (xs @ ys) = seen_after (seen_after seen xs) ys"
  by (induction seen xs rule: seen_after.induct) simp_all

lemma gateway_guarded_append:
  "gateway_guarded seen (xs @ ys) \<longleftrightarrow>
     gateway_guarded seen xs \<and> gateway_guarded (seen_after seen xs) ys"
  by (induction seen xs rule: gateway_guarded.induct) simp_all

lemma gateway_guarded_calls_of: "gateway_guarded seen (calls_of es) = gateway_guarded seen es"
  by (induction seen es rule: gateway_guarded.induct) (simp_all add: calls_of_Cons)

lemma seen_after_calls_of: "seen_after seen (calls_of es) = seen_after seen es"
  by (induction seen es rule: seen_after.induct) (simp_all add: calls_of_Cons)

lemma emit_fields [simp]:
  "trace (emit e w) = trace w @ [e]"
  "instance_set (emit e w) = instance_set w"
  "info (emit e w) = info w"
  "fetches (emit e w) = fetches w"
  "orders_sent (emit e w) = orders_sent w"
  by (simp_all add: emit_def)

lemma logger_fields [simp]:
  "trace (logger l w) = trace w @ [Log l]"
  "instance_set (logger l w) = instance_set w"
  "info (logger l w) = info w"
  "fetches (logger l w) = fetches w"
  "orders_sent (logger l w) = orders_sent w"
  by (simp_all add: logger_def)

lemma handle_error_cases:
  "handle_error e w =
     (if is_BinanceRequestException e then (Inl AttributeError, w)
      else (Inr (), logger (HandledError e) w))"
  by (cases e) simp_all

lemma handle_error_logged:
  "\<not> is_BinanceRequestException e \<Longrightarrow> handle_error e w = (Inr (), logger (HandledError e) w)"
  by (simp add: handle_error_cases)

lemma handle_error_fields [simp]:
  "calls_of (trace (snd (handle_error e w))) = calls_of (trace w)"
  "instance_set (snd (handle_error e w)) = instance_set w"
  "info (snd (handle_error e w)) = info w"
  "fetches (snd (handle_error e w)) = fetches w"
  "orders_sent (snd (handle_error e w)) = orders_sent w"
  by (simp_all add: handle_error_cases calls_of_Cons)

lemma except_Exception_fields [simp]:
  "calls_of (trace (snd (except_Exception e w))) = calls_of (trace w)"
  "instance_set (snd (except_Exception e w)) = instance_set w"
  "info (snd (except_Exception e w)) = info w"
  "orders_sent (snd (except_Exception e w)) = orders_sent w"
  by (simp_all add: except_Exception_def case_prod_beta split: sum.splits)

lemma ExchangeInfo_new_fields [simp]:
  "calls_of (trace (snd (ExchangeInfo_new c w))) = calls_of (trace w)"
  "orders_sent (snd (ExchangeInfo_new c w)) = orders_sent w"
  by (simp_all add: ExchangeInfo_new_def Let_def calls_of_Cons split: sum.splits)

lemma validate_input_snd_cases:
  assumes "P (snd (ExchangeInfo_new c w))" and "\<And>l v. P v \<Longrightarrow> P (logger l v)"
  shows "P (snd (validate_input c s q p w))"
proof (cases "ExchangeInfo_new c w")
  case (Pair r w1)
  with assms(1) have "P w1" by simp
  with assms(2) have "P (logger l w1)" for l by simp
  with \<open>P w1\<close> Pair show ?thesis
    unfolding validate_input_def
    by (simp add: Let_def split: prod.splits sum.splits option.splits)
qed

lemma validate_input_fields [simp]:
  "calls_of (trace (snd (validate_input c s q p w))) = calls_of (trace w)"
  "orders_sent (snd (validate_input c s q p w)) = orders_sent w"
  "instance_set (snd (validate_input c s q p w))"
  "info (snd (validate_input c s q p w)) = info (snd (ExchangeInfo_new c w))"
proof -
  show "calls_of (trace (snd (validate_input c s q p w))) = calls_of (trace w)"
    by (rule validate_input_snd_cases) (simp_all add: calls_of_Cons)
  show "orders_sent (snd (validate_input c s q p w)) = orders_sent w"
    by (rule validate_input_snd_cases) simp_all
  show "instance_set (snd (validate_input c s q p w))"
    by (rule validate_input_snd_cases) (simp_all add: ExchangeInfo_new_instance_set)
  show "info (snd (validate_input c s q p w)) = info (snd (ExchangeInfo_new c w))"
    by (rule validate_input_snd_cases) simp_all
qed

lemma validate_input_Inl:
  "fst (ExchangeInfo_new c w) = Inl e \<Longrightarrow> fst (validate_input c s q p w) = Inl e"
  by (cases "ExchangeInfo_new c w") (simp add: validate_input_def)

lemma validate_input_fst_cong:
  assumes "ExchangeInfo_new c w = (Inr (), w1)" and "ExchangeInfo_new c' w' = (Inr (), w1')"
    and "info w1' = info w1"
  shows "fst (validate_input c' s q p w') = fst (validate_input c s q p w)"
  unfolding validate_input_def get_symbol_info_def
  by (simp add: assms Let_def split: prod.splits sum.splits option.splits)

lemma validate_input_stable:
  assumes "fst (validate_input c s0 q0 p0 w) = Inr b"
    and "instance_set w'" and "info w' = info (snd (ExchangeInfo_new c w))"
  shows "fst (validate_input c s q p w') = fst (validate_input c s q p w)"
proof -
  obtain r w1 where e: "ExchangeInfo_new c w = (r, w1)" by (cases "ExchangeInfo_new c w")
  have "r = Inr ()"
  proof (cases r)
    case (Inl x)
    with e assms(1) validate_input_Inl[of c w x s0 q0 p0] show ?thesis by simp
  next
    case (Inr u)
    then show ?thesis by simp
  qed
  with e have e1: "ExchangeInfo_new c w = (Inr (), w1)" by simp
  have e2: "ExchangeInfo_new c w' = (Inr (), w')"
    using assms(2) by (rule ExchangeInfo_new_cached)
  from assms(3) e1 have i: "info w' = info w1" by simp
  show ?thesis by (rule validate_input_fst_cong[OF e1 e2 i])
qed

lemma validate_input_trace_irrelevant:
  "fst (validate_input c s q p (w\<lparr>trace := t\<rparr>)) = fst (validate_input c s q p w)"
proof -
  obtain r w1 where e: "ExchangeInfo_new c w = (r, w1)" by (cases "ExchangeInfo_new c w")
  obtain r' w1' where e': "ExchangeInfo_new c (w\<lparr>trace := t\<rparr>) = (r', w1')"
    by (cases "ExchangeInfo_new c (w\<lparr>trace := t\<rparr>)")
  have r: "r' = r" and i: "info w1' = info w1"
    using e e' by (auto simp: ExchangeInfo_new_def Let_def emit_def logger_def
        split: sum.splits if_splits)
  show ?thesis
  proof (cases r)
    case (Inl x)
    have "fst (validate_input c s q p w) = Inl x"
      by (rule validate_input_Inl) (simp add: e Inl)
    moreover have "fst (validate_input c s q p (w\<lparr>trace := t\<rparr>)) = Inl x"
      by (rule validate_input_Inl) (simp add: e' r Inl)
    ultimately show ?thesis by simp
  next
    case (Inr u)
    from e Inr have e1: "ExchangeInfo_new c w = (Inr (), w1)" by simp
    from e' r Inr have e2: "ExchangeInfo_new c (w\<lparr>trace := t\<rparr>) = (Inr (), w1')" by simp
    show ?thesis by (rule validate_input_fst_cong[OF e1 e2 i])
  qed
qed

lemma call_validate_input_eq:
  "call_validate_input c s q p w =
     (fst (validate_input c s q p w),
      emit (Validate s q p (fst (validate_input c s q p w))) (snd (validate_input c s q p w)))"
  by (simp add: call_validate_input_def split: prod.splits)

lemma call_create_order_eq:
  "call_create_order c ord w =
     (futures_create_order c (orders_sent w) ord,
      emit (CreateOrder ord (futures_create_order c (orders_sent w) ord))
        (w\<lparr>orders_sent := orders_sent w + 1\<rparr>))"
  by (simp add: call_create_order_def Let_def)

lemma call_validate_input_fields [simp]:
  "fst (call_validate_input c s q p w) = fst (validate_input c s q p w)"
  "calls_of (trace (snd (call_validate_input c s q p w))) =
     calls_of (trace w) @ [Validate s q p (fst (validate_input c s q p w))]"
  "orders_sent (snd (call_validate_input c s q p w)) = orders_sent w"
  "instance_set (snd (call_validate_input c s q p w))"
  "info (snd (call_validate_input c s q p w)) = info (snd (ExchangeInfo_new c w))"
  by (simp_all add: call_validate_input_eq calls_of_Cons)

lemma call_create_order_fields [simp]:
  "fst (call_create_order c ord w) = futures_create_order c (orders_sent w) ord"
  "calls_of (trace (snd (call_create_order c ord w))) =
     calls_of (trace w) @ [CreateOrder ord (futures_create_order c (orders_sent w) ord)]"
  "orders_sent (snd (call_create_order c ord w)) = orders_sent w + 1"
  "instance_set (snd (call_create_order c ord w)) = instance_set w"
  "info (snd (call_create_order c ord w)) = info w"
  by (simp_all add: call_create_order_eq calls_of_Cons)

text \<open>The calls of a strategy that validates one order and then submits it.\<close>

lemma place_market_order_calls:
  "calls_of (trace (snd (place_market_order c symb side qty w))) =
     calls_of (trace w) @
     Validate symb qty None (fst (validate_input c symb qty None w)) #
     (if fst (validate_input c symb qty None w) = Inr True
      then [CreateOrder
              \<lparr>order_symbol = symb, order_side = side, order_type = FUTURE_ORDER_TYPE_MARKET,
               quantity = qty, price = None, stopPrice = None, timeInForce = None\<rparr>
              (futures_create_order c (orders_sent w)
                 \<lparr>order_symbol = symb, order_side = side, order_type = FUTURE_ORDER_TYPE_MARKET,
                  quantity = qty, price = None, stopPrice = None, timeInForce = None\<rparr>)]
      else [])"
  unfolding place_market_order_def
  by (simp add: case_prod_beta calls_of_Cons split: sum.splits)

lemma place_limit_order_calls:
  "calls_of (trace (snd (place_limit_order c symb side qty prc tif w))) =
     calls_of (trace w) @
     Validate symb qty (Some prc) (fst (validate_input c symb qty (Some prc) w)) #
     (if fst (validate_input c symb qty (Some prc) w) = Inr True
      then [CreateOrder
              \<lparr>order_symbol = symb, order_side = side, order_type = FUTURE_ORDER_TYPE_LIMIT,
               quantity = qty, price = Some prc, stopPrice = None, timeInForce = Some tif\<rparr>
              (futures_create_order c (orders_sent w)
                 \<lparr>order_symbol = symb, order_side = side, order_type = FUTURE_ORDER_TYPE_LIMIT,
                  quantity = qty, price = Some prc, stopPrice = None,
                  timeInForce = Some tif\<rparr>)]
      else [])"
  unfolding place_limit_order_def
  by (simp add: case_prod_beta calls_of_Cons split: sum.splits)

lemma place_stop_limit_order_calls:
  "calls_of (trace (snd (place_stop_limit_order c symb side qty stop_price limit_price w))) =
     calls_of (trace w) @
     Validate symb qty (Some limit_price) (fst (validate_input c symb qty (Some limit_price) w)) #
     (if fst (validate_input c symb qty (Some limit_price) w) = Inr True
      then [CreateOrder
              \<lparr>order_symbol = symb, order_side = side, order_type = FUTURE_ORDER_TYPE_STOP,
               quantity = qty, price = Some limit_price, stopPrice = Some stop_price,
               timeInForce = Some ''GTC''\<rparr>
              (futures_create_order c (orders_sent w)
                 \<lparr>order_symbol = symb, order_side = side, order_type = FUTURE_ORDER_TYPE_STOP,
                  quantity = qty, price = Some limit_price, stopPrice = Some stop_price,
                  timeInForce = Some ''GTC''\<rparr>)]
      else [])"
  unfolding place_stop_limit_order_def
  by (simp add: case_prod_beta calls_of_Cons split: sum.splits)

lemma validate_input_after_call:
  assumes "fst (validate_input c s0 q0 p0 w) = Inr b"
  shows "fst (validate_input c s q p (snd (call_validate_input c s0 q0 p0 w))) =
         fst (validate_input c s q p w)"
  by (rule validate_input_stable[OF assms]) simp_all

lemma place_oco_order_calls:
  "calls_of (trace (snd (place_oco_order c symb side qty take_profit stop_loss w))) =
     calls_of (trace w) @
     Validate symb qty (Some take_profit) (fst (validate_input c symb qty (Some take_profit) w)) #
     (if fst (validate_input c symb qty (Some take_profit) w) = Inr True
      then Validate symb qty (Some stop_loss) (fst (validate_input c symb qty (Some stop_loss) w)) #
        (if fst (validate_input c symb qty (Some stop_loss) w) = Inr True
         then CreateOrder
                \<lparr>order_symbol = symb, order_side = (if side = ''BUY'' then ''SELL'' else ''BUY''),
                 order_type = ''TAKE_PROFIT'', quantity = qty, price = None,
                 stopPrice = Some take_profit, timeInForce = None\<rparr>
                (futures_create_order c (orders_sent w)
                   \<lparr>order_symbol = symb,
                    order_side = (if side = ''BUY'' then ''SELL'' else ''BUY''),
                    order_type = ''TAKE_PROFIT'', quantity = qty, price = None,
                    stopPrice = Some take_profit, timeInForce = None\<rparr>) #
           (case futures_create_order c (orders_sent w)
                   \<lparr>order_symbol = symb,
                    order_side = (if side = ''BUY'' then ''SELL'' else ''BUY''),
                    order_type = ''TAKE_PROFIT'', quantity = qty, price = None,
                    stopPrice = Some take_profit, timeInForce = None\<rparr> of
              Inl e \<Rightarrow> []
            | Inr tp_order \<Rightarrow>
                [CreateOrder
                   \<lparr>order_symbol = symb,
                    order_side = (if side = ''BUY'' then ''SELL'' else ''BUY''),
                    order_type = ''STOP'', quantity = qty, price = None,
                    stopPrice = Some stop_loss, timeInForce = None\<rparr>
                   (futures_create_order c (orders_sent w + 1)
                      \<lparr>order_symbol = symb,
                       order_side = (if side = ''BUY'' then ''SELL'' else ''BUY''),
                       order_type = ''STOP'', quantity = qty, price = None,
                       stopPrice = Some stop_loss, timeInForce = None\<rparr>)])
         else [])
      else [])"
  unfolding place_oco_order_def
  by (simp add: case_prod_beta calls_of_Cons Let_def validate_input_after_call split: sum.splits)

lemma sleep_fields [simp]:
  "calls_of (trace (snd (sleep n w))) = calls_of (trace w)"
  "orders_sent (snd (sleep n w)) = orders_sent w"
  "instance_set (snd (sleep n w)) = instance_set w"
  "info (snd (sleep n w)) = info w"
  by (simp_all add: sleep_def calls_of_Cons)

lemma twap_loop_guarded:
  "gateway_guarded [] (calls_of (trace w)) \<Longrightarrow>
   gateway_guarded []
     (calls_of (trace (snd (twap_loop c symb side q num_intervals interval_seconds levels w))))"
proof (induction levels arbitrary: w)
  case Nil
  then show ?case by simp
next
  case (Cons i rest)
  show ?case
    using Cons.prems
    by (auto simp: case_prod_beta calls_of_Cons gateway_guarded_append validated_def
        intro!: Cons.IH split: sum.splits)
qed

lemma validate_input_same_cache:
  assumes "instance_set w' = instance_set w" and "info w' = info w" and "fetches w' = fetches w"
  shows "fst (validate_input c s q p w') = fst (validate_input c s q p w)"
proof -
  obtain r w1 where e: "ExchangeInfo_new c w = (r, w1)" by (cases "ExchangeInfo_new c w")
  obtain r' w1' where e': "ExchangeInfo_new c w' = (r', w1')" by (cases "ExchangeInfo_new c w'")
  have r: "r' = r" and i: "info w1' = info w1"
    using e e' assms
    by (auto simp: ExchangeInfo_new_def Let_def emit_def logger_def
        split: sum.splits if_splits)
  show ?thesis
  proof (cases r)
    case (Inl x)
    have "fst (validate_input c s q p w) = Inl x"
      by (rule validate_input_Inl) (simp add: e Inl)
    moreover have "fst (validate_input c s q p w') = Inl x"
      by (rule validate_input_Inl) (simp add: e' r Inl)
    ultimately show ?thesis by simp
  next
    case (Inr u)
    from e Inr have e1: "ExchangeInfo_new c w = (Inr (), w1)" by simp
    from e' r Inr have e2: "ExchangeInfo_new c w' = (Inr (), w1')" by simp
    show ?thesis by (rule validate_input_fst_cong[OF e1 e2 i])
  qed
qed

lemma validate_input_peel [simp]:
  "fst (validate_input c s q p (emit ev w)) = fst (validate_input c s q p w)"
  "fst (validate_input c s q p (logger l w)) = fst (validate_input c s q p w)"
  "fst (validate_input c s q p (snd (handle_error e w))) = fst (validate_input c s q p w)"
  "fst (validate_input c s q p (snd (call_create_order c ord w))) = fst (validate_input c s q p w)"
  "fst (validate_input c s q p (snd (sleep n w))) = fst (validate_input c s q p w)"
  by (rule validate_input_same_cache; simp add: call_create_order_eq sleep_def)+

lemma sleep_in_range: "0 \<le> n \<Longrightarrow> n \<le> time_sleep_max \<Longrightarrow> fst (sleep n w) = Inr ()"
  by (simp add: sleep_def)

lemma gateway_errors_loggedD:
  assumes "gateway_errors_logged c" and "futures_create_order c n ord = Inl e"
  shows "is_Exception e" and "handle_error e w = (Inr (), logger (HandledError e) w)"
  using assms unfolding gateway_errors_logged_def by (auto simp: handle_error_logged)

lemma twap_loop_orders:
  assumes "gateway_errors_logged c" and "0 \<le> interval_seconds"
    and "interval_seconds \<le> time_sleep_max"
  shows "orders_of (calls_of (trace (snd (twap_loop c symb side q num_intervals interval_seconds
            levels w)))) =
         orders_of (calls_of (trace w)) @
         (if fst (validate_input c symb q None w) = Inr True
          then replicate (length levels)
                 \<lparr>order_symbol = symb, order_side = side, order_type = FUTURE_ORDER_TYPE_MARKET,
                  quantity = q, price = None, stopPrice = None, timeInForce = None\<rparr>
          else [])"
proof (induction levels arbitrary: w)
  case Nil
  then show ?case by simp
next
  case (Cons i rest)
  show ?case
    using assms
    by (auto simp: case_prod_beta calls_of_Cons orders_of_append Cons.IH sleep_in_range
        validate_input_after_call gateway_errors_loggedD
        split: sum.splits)
qed

lemma int_to_float_nat: "n < 2 ^ 53 \<Longrightarrow> int_to_float (int n) = Inr (Fin (of_nat n))"
  by (simp add: int_to_float_def rnd_of_nat)

lemma grid_loop_orders:
  assumes "gateway_errors_logged c"
    and "float_truediv (float_add lower_bound upper_bound) (Fin 2) = Inr midpoint"
    and "\<forall>i \<in> set levels. i < 2 ^ 53"
  shows "orders_of (calls_of (trace (snd (grid_loop c symb lower_bound upper_bound price_step q
            levels orders w)))) =
         orders_of (calls_of (trace w)) @
         map (\<lambda>i. \<lparr>order_symbol = symb,
                    order_side =
                      (if float_lt (float_add lower_bound (float_mul (Fin (of_nat i)) price_step))
                            midpoint
                       then ''BUY'' else ''SELL''),
                    order_type = FUTURE_ORDER_TYPE_LIMIT, quantity = q,
                    price = Some (float_add lower_bound (float_mul (Fin (of_nat i)) price_step)),
                    stopPrice = None, timeInForce = Some ''GTC''\<rparr>)
           (takeWhile
              (\<lambda>i. fst (validate_input c symb q
                           (Some (float_add lower_bound (float_mul (Fin (of_nat i)) price_step)))
                           w) = Inr True)
              levels)"
  using assms(3)
proof (induction levels arbitrary: w orders)
  case Nil
  then show ?case by simp
next
  case (Cons i rest)
  then have i: "int_to_float (int i) = Inr (Fin (of_nat i))" and r: "\<forall>i \<in> set rest. i < 2 ^ 53"
    by (simp_all add: int_to_float_nat)
  note IH = Cons.IH[OF r]
  define p where "p = float_add lower_bound (float_mul (Fin (of_nat i)) price_step)"
  define ord where "ord = \<lparr>order_symbol = symb,
      order_side = (if float_lt p midpoint then ''BUY'' else ''SELL''),
      order_type = FUTURE_ORDER_TYPE_LIMIT, quantity = q, price = Some p,
      stopPrice = None, timeInForce = Some ''GTC''\<rparr>"
  define wv where "wv = snd (call_validate_input c symb q (Some p) w)"
  define wc where "wc = snd (call_create_order c ord wv)"
  show ?case
  proof (cases "fst (validate_input c symb q (Some p) w) = Inr True")
    case False
    then show ?thesis
      by (simp add: i assms(2) p_def[symmetric] case_prod_beta calls_of_Cons orders_of_append
          Let_def del: float_truediv.simps split: sum.splits)
  next
    case True
    have "\<exists>w' orders'.
        grid_loop c symb lower_bound upper_bound price_step q (i # rest) orders w =
          grid_loop c symb lower_bound upper_bound price_step q rest orders' w' \<and>
        orders_of (calls_of (trace w')) = orders_of (calls_of (trace w)) @ [ord] \<and>
        (\<forall>x. fst (validate_input c symb q x w') = fst (validate_input c symb q x w))"
    proof (cases "futures_create_order c (orders_sent w) ord")
      case (Inl e)
      with assms(1) have "is_Exception e"
        and "handle_error e wc = (Inr (), logger (HandledError e) wc)"
        by (rule gateway_errors_loggedD)+
      with Inl True show ?thesis
        apply (intro exI[where x = "logger (GridOrderFailedContinuing p)
              (logger (HandledError e) wc)"]
            exI[where x = orders])
        apply (simp add: i assms(2) p_def[symmetric] ord_def[symmetric] case_prod_beta Let_def
            wv_def[symmetric] wc_def[symmetric] del: float_truediv.simps)
        apply (simp add: wc_def wv_def calls_of_Cons orders_of_append validate_input_after_call)
        done
    next
      case (Inr resp)
      with True show ?thesis
        apply (intro exI[where x = "logger (GridOrderPlaced (order_side ord) q p resp) wc"]
            exI[where x = "orders @ [resp]"])
        apply (simp add: i assms(2) p_def[symmetric] ord_def[symmetric] case_prod_beta Let_def
            wv_def[symmetric] wc_def[symmetric] del: float_truediv.simps)
        apply (simp add: wc_def wv_def calls_of_Cons orders_of_append validate_input_after_call)
        apply (simp add: ord_def)
        done
    qed
    then obtain w' orders' where
      s: "grid_loop c symb lower_bound upper_bound price_step q (i # rest) orders w =
          grid_loop c symb lower_bound upper_bound price_step q rest orders' w'"
      and o: "orders_of (calls_of (trace w')) = orders_of (calls_of (trace w)) @ [ord]"
      and v: "\<And>x. fst (validate_input c symb q x w') = fst (validate_input c symb q x w)"
      by blast
    show ?thesis
      unfolding s IH[of orders' w'] o v
      using True by (simp add: p_def ord_def)
  qed
qed

lemma grid_loop_guarded:
  "gateway_guarded [] (calls_of (trace w)) \<Longrightarrow>
   gateway_guarded []
     (calls_of (trace (snd (grid_loop c symb lower_bound upper_bound price_step q levels
        orders w))))"
proof (induction levels arbitrary: w orders)
  case Nil
  then show ?case by simp
next
  case (Cons i rest)
  show ?case
    using Cons.prems
    by (auto simp: case_prod_beta calls_of_Cons gateway_guarded_append validated_def Let_def
        intro!: Cons.IH split: sum.splits)
qed

lemma place_twap_order_calls:
  "calls_of (trace (snd (place_twap_order c symb side total_quantity duration_minutes
      interval_seconds w))) =
   (case (if interval_seconds = 0 then Inl ZeroDivisionError
          else if (duration_minutes * 60) div interval_seconds = 0 then Inl ZeroDivisionError
          else case int_to_float ((duration_minutes * 60) div interval_seconds) of
                 Inl e \<Rightarrow> Inl e
               | Inr n \<Rightarrow> float_truediv total_quantity n) of
      Inl e \<Rightarrow> calls_of (trace w)
    | Inr quantity_per_order \<Rightarrow>
        calls_of (trace (snd (twap_loop c symb side quantity_per_order
          ((duration_minutes * 60) div interval_seconds) interval_seconds
          [0..<nat ((duration_minutes * 60) div interval_seconds)]
          (logger (StartingTwap ((duration_minutes * 60) div interval_seconds)
                     quantity_per_order interval_seconds) w)))))"
  unfolding place_twap_order_def
  by (simp add: case_prod_beta Let_def calls_of_Cons del: float_truediv.simps split: sum.splits)

lemma place_twap_order_guarded:
  assumes "gateway_guarded [] (calls_of (trace w))"
  shows "gateway_guarded []
     (calls_of (trace (snd (place_twap_order c symb side total_quantity duration_minutes
        interval_seconds w))))"
  unfolding place_twap_order_calls using assms
  by (auto simp: calls_of_Cons simp del: float_truediv.simps intro!: twap_loop_guarded
      split: sum.splits)

lemma place_twap_order_orders:
  assumes "gateway_errors_logged c" and "0 < interval_seconds"
    and "interval_seconds \<le> time_sleep_max"
    and "(duration_minutes * 60) div interval_seconds \<noteq> 0"
    and "int_to_float ((duration_minutes * 60) div interval_seconds) = Inr n"
    and "float_truediv total_quantity n = Inr quantity_per_order"
  shows "orders_of (calls_of (trace (snd (place_twap_order c symb side total_quantity
            duration_minutes interval_seconds w)))) =
         orders_of (calls_of (trace w)) @
         (if fst (validate_input c symb quantity_per_order None w) = Inr True
          then replicate (nat ((duration_minutes * 60) div interval_seconds))
                 \<lparr>order_symbol = symb, order_side = side, order_type = FUTURE_ORDER_TYPE_MARKET,
                  quantity = quantity_per_order, price = None, stopPrice = None,
                  timeInForce = None\<rparr>
          else [])"
proof -
  from assms(2) have i: "0 \<le> interval_seconds" "interval_seconds \<noteq> 0" by simp_all
  show ?thesis
    unfolding place_twap_order_calls
    by (simp add: i assms(4-6) twap_loop_orders[OF assms(1) i(1) assms(3)] calls_of_Cons
        del: float_truediv.simps)
qed

lemma place_twap_order_none:
  assumes "(duration_minutes * 60) div interval_seconds = 0"
  shows "calls_of (trace (snd (place_twap_order c symb side total_quantity duration_minutes
            interval_seconds w))) = calls_of (trace w)"
  unfolding place_twap_order_calls by (simp add: assms)

lemma place_grid_orders_calls:
  "calls_of (trace (snd (place_grid_orders c symb lower_bound upper_bound num_levels
      quantity_per_level w))) =
   (case (if num_levels \<le> 1 then Inl ZeroDivisionError
          else case int_to_float (num_levels - 1) of
                 Inl e \<Rightarrow> Inl e
               | Inr n \<Rightarrow> float_truediv (float_sub upper_bound lower_bound) n) of
      Inl e \<Rightarrow> calls_of (trace w)
    | Inr price_step \<Rightarrow>
        calls_of (trace (snd (grid_loop c symb lower_bound upper_bound price_step
          quantity_per_level [0..<nat num_levels] [] w))))"
  unfolding place_grid_orders_def
  by (simp add: case_prod_beta Let_def calls_of_Cons del: float_truediv.simps
      split: sum.splits option.splits)

lemma place_grid_orders_guarded:
  assumes "gateway_guarded [] (calls_of (trace w))"
  shows "gateway_guarded []
     (calls_of (trace (snd (place_grid_orders c symb lower_bound upper_bound num_levels
        quantity_per_level w))))"
  unfolding place_grid_orders_calls using assms
  by (auto simp: calls_of_Cons simp del: float_truediv.simps intro!: grid_loop_guarded
      split: sum.splits)

lemma place_grid_orders_orders:
  assumes "gateway_errors_logged c" and "1 < num_levels" and "num_levels \<le> 2 ^ 53"
    and "float_truediv (float_sub upper_bound lower_bound) (Fin (of_int (num_levels - 1))) =
           Inr price_step"
    and "float_truediv (float_add lower_bound upper_bound) (Fin 2) = Inr midpoint"
  shows "orders_of (calls_of (trace (snd (place_grid_orders c symb lower_bound upper_bound
            num_levels q w)))) =
         orders_of (calls_of (trace w)) @
         map (\<lambda>i. \<lparr>order_symbol = symb,
                    order_side =
                      (if float_lt (float_add lower_bound (float_mul (Fin (of_nat i)) price_step))
                            midpoint
                       then ''BUY'' else ''SELL''),
                    order_type = FUTURE_ORDER_TYPE_LIMIT, quantity = q,
                    price = Some (float_add lower_bound (float_mul (Fin (of_nat i)) price_step)),
                    stopPrice = None, timeInForce = Some ''GTC''\<rparr>)
           (takeWhile
              (\<lambda>i. fst (validate_input c symb q
                           (Some (float_add lower_bound (float_mul (Fin (of_nat i)) price_step)))
                           w) = Inr True)
              [0..<nat num_levels])"
proof -
  have "nat (num_levels - 1) < 2 ^ 53" using assms(2,3) by simp
  then have "int_to_float (int (nat (num_levels - 1))) = Inr (Fin (of_nat (nat (num_levels - 1))))"
    by (rule int_to_float_nat)
  moreover have "int (nat (num_levels - 1)) = num_levels - 1" using assms(2) by simp
  moreover have "(of_nat (nat (num_levels - 1)) :: rat) = of_int (num_levels - 1)"
    using assms(2) by (metis calculation(2) of_int_of_nat_eq)
  ultimately have n: "int_to_float (num_levels - 1) = Inr (Fin (of_int (num_levels - 1)))"
    by simp
  have l: "\<forall>i \<in> set [0..<nat num_levels]. i < 2 ^ 53"
    using assms(3) by auto
  show ?thesis
    unfolding place_grid_orders_calls
    using assms(2) assms(4)
    by (simp add: n grid_loop_orders[OF assms(1) assms(5) l] del: float_truediv.simps)
qed

lemma gateway_guarded_Validate:
  "gateway_guarded seen (Validate s q p v # es) =
     gateway_guarded (if v = Inr True then (s, q, p) # seen else seen) es"
  by (cases v; simp)

lemma events_of_Market:
  "calls_of (events_of c (Market symb side qty) w) =
     Validate symb qty None (fst (validate_input c symb qty None w)) #
     (if fst (validate_input c symb qty None w) = Inr True
      then [CreateOrder
              \<lparr>order_symbol = symb, order_side = side, order_type = FUTURE_ORDER_TYPE_MARKET,
               quantity = qty, price = None, stopPrice = None, timeInForce = None\<rparr>
              (futures_create_order c (orders_sent w)
                 \<lparr>order_symbol = symb, order_side = side, order_type = FUTURE_ORDER_TYPE_MARKET,
                  quantity = qty, price = None, stopPrice = None, timeInForce = None\<rparr>)]
      else [])"
  by (simp add: events_of_def place_market_order_calls validate_input_trace_irrelevant)

lemma events_of_Limit:
  "calls_of (events_of c (Limit symb side qty prc tif) w) =
     Validate symb qty (Some prc) (fst (validate_input c symb qty (Some prc) w)) #
     (if fst (validate_input c symb qty (Some prc) w) = Inr True
      then [CreateOrder
              \<lparr>order_symbol = symb, order_side = side, order_type = FUTURE_ORDER_TYPE_LIMIT,
               quantity = qty, price = Some prc, stopPrice = None, timeInForce = Some tif\<rparr>
              (futures_create_order c (orders_sent w)
                 \<lparr>order_symbol = symb, order_side = side, order_type = FUTURE_ORDER_TYPE_LIMIT,
                  quantity = qty, price = Some prc, stopPrice = None,
                  timeInForce = Some tif\<rparr>)]
      else [])"
  by (simp add: events_of_def place_limit_order_calls validate_input_trace_irrelevant)

lemma events_of_StopLimit:
  "calls_of (events_of c (StopLimit symb side qty stop_price limit_price) w) =
     Validate symb qty (Some limit_price) (fst (validate_input c symb qty (Some limit_price) w)) #
     (if fst (validate_input c symb qty (Some limit_price) w) = Inr True
      then [CreateOrder
              \<lparr>order_symbol = symb, order_side = side, order_type = FUTURE_ORDER_TYPE_STOP,
               quantity = qty, price = Some limit_price, stopPrice = Some stop_price,
               timeInForce = Some ''GTC''\<rparr>
              (futures_create_order c (orders_sent w)
                 \<lparr>order_symbol = symb, order_side = side, order_type = FUTURE_ORDER_TYPE_STOP,
                  quantity = qty, price = Some limit_price, stopPrice = Some stop_price,
                  timeInForce = Some ''GTC''\<rparr>)]
      else [])"
  by (simp add: events_of_def place_stop_limit_order_calls validate_input_trace_irrelevant)

lemma events_of_Bracket:
  "calls_of (events_of c (Bracket symb side qty take_profit stop_loss) w) =
     Validate symb qty (Some take_profit) (fst (validate_input c symb qty (Some take_profit) w)) #
     (if fst (validate_input c symb qty (Some take_profit) w) = Inr True
      then Validate symb qty (Some stop_loss) (fst (validate_input c symb qty (Some stop_loss) w)) #
        (if fst (validate_input c symb qty (Some stop_loss) w) = Inr True
         then CreateOrder
                \<lparr>order_symbol = symb, order_side = (if side = ''BUY'' then ''SELL'' else ''BUY''),
                 order_type = ''TAKE_PROFIT'', quantity = qty, price = None,
                 stopPrice = Some take_profit, timeInForce = None\<rparr>
                (futures_create_order c (orders_sent w)
                   \<lparr>order_symbol = symb,
                    order_side = (if side = ''BUY'' then ''SELL'' else ''BUY''),
                    order_type = ''TAKE_PROFIT'', quantity = qty, price = None,
                    stopPrice = Some take_profit, timeInForce = None\<rparr>) #
           (case futures_create_order c (orders_sent w)
                   \<lparr>order_symbol = symb,
                    order_side = (if side = ''BUY'' then ''SELL'' else ''BUY''),
                    order_type = ''TAKE_PROFIT'', quantity = qty, price = None,
                    stopPrice = Some take_profit, timeInForce = None\<rparr> of
              Inl e \<Rightarrow> []
            | Inr tp_order \<Rightarrow>
                [CreateOrder
                   \<lparr>order_symbol = symb,
                    order_side = (if side = ''BUY'' then ''SELL'' else ''BUY''),
                    order_type = ''STOP'', quantity = qty, price = None,
                    stopPrice = Some stop_loss, timeInForce = None\<rparr>
                   (futures_create_order c (orders_sent w + 1)
                      \<lparr>order_symbol = symb,
                       order_side = (if side = ''BUY'' then ''SELL'' else ''BUY''),
                       order_type = ''STOP'', quantity = qty, price = None,
                       stopPrice = Some stop_loss, timeInForce = None\<rparr>)])
         else [])
      else [])"
  by (simp add: events_of_def place_oco_order_calls validate_input_trace_irrelevant
      split: sum.splits)

text \<open>Runs of the validator on the demo exchange.\<close>

lemma demo_validate:
  "fst (validate_input c ''ETHUSDT'' (Fin 2) None demo_world) = Inr True"
  "fst (validate_input c ''ETHUSDT'' (Fin 9) None demo_world) = Inr False"
  "fst (validate_input c ''ETHUSDT'' (Fin 2) (Some (Fin 100)) demo_world) = Inr True"
  "fst (validate_input c ''ETHUSDT'' (Fin 2) (Some (Fin 150)) demo_world) = Inr True"
  "fst (validate_input c ''ETHUSDT'' (Fin 2) (Some (Fin 200)) demo_world) = Inr True"
  "fst (validate_input c ''ETHUSDT'' (Fin 2) (Some (Fin 25)) demo_world) = Inr False"
  "fst (validate_input c ''ETHUSDT'' (Fin 2) (Some (Fin 600)) demo_world) = Inr True"
  "fst (validate_input c ''ETHUSDT'' (Fin 2) (Some (Fin 1100)) demo_world) = Inr False"
  by (simp_all add: run_eval demo_world_def demo_exchange_info_def float_eval)

lemma demo_orders_sent: "orders_sent demo_world = 0"
  by (simp add: demo_world_def)

lemma int_to_float_pos: "0 \<le> n \<Longrightarrow> n < 2 ^ 53 \<Longrightarrow> int_to_float n = Inr (Fin (of_int n))"
  using int_to_float_nat[of "nat n"] by simp

lemma events_of_Twap_none:
  "(duration_minutes * 60) div interval_seconds = 0 \<Longrightarrow>
   calls_of (events_of c (Twap symb side total_quantity duration_minutes interval_seconds) w) = []"
  by (simp add: events_of_def place_twap_order_none)

lemma events_of_Twap_orders:
  assumes "gateway_errors_logged c" and "0 < interval_seconds"
    and "interval_seconds \<le> time_sleep_max"
    and "0 < (duration_minutes * 60) div interval_seconds"
    and "(duration_minutes * 60) div interval_seconds < 2 ^ 53"
    and "float_truediv total_quantity (Fin (of_int ((duration_minutes * 60) div interval_seconds))) =
           Inr quantity_per_order"
  shows "orders_of (events_of c (Twap symb side total_quantity duration_minutes interval_seconds) w) =
         (if fst (validate_input c symb quantity_per_order None w) = Inr True
          then replicate (nat ((duration_minutes * 60) div interval_seconds))
                 \<lparr>order_symbol = symb, order_side = side, order_type = FUTURE_ORDER_TYPE_MARKET,
                  quantity = quantity_per_order, price = None, stopPrice = None,
                  timeInForce = None\<rparr>
          else [])"
proof -
  have n: "int_to_float ((duration_minutes * 60) div interval_seconds) =
      Inr (Fin (of_int ((duration_minutes * 60) div interval_seconds)))"
    using assms(4,5) by (simp add: int_to_float_pos)
  have z: "(duration_minutes * 60) div interval_seconds \<noteq> 0" using assms(4) by simp
  have "orders_of (events_of c (Twap symb side total_quantity duration_minutes interval_seconds) w) =
      orders_of (calls_of (trace (snd (place_twap_order c symb side total_quantity
        duration_minutes interval_seconds (w\<lparr>trace := []\<rparr>)))))"
    by (simp add: events_of_def orders_of_calls_of)
  also have "\<dots> = (if fst (validate_input c symb quantity_per_order None w) = Inr True
          then replicate (nat ((duration_minutes * 60) div interval_seconds))
                 \<lparr>order_symbol = symb, order_side = side, order_type = FUTURE_ORDER_TYPE_MARKET,
                  quantity = quantity_per_order, price = None, stopPrice = None,
                  timeInForce = None\<rparr>
          else [])"
    unfolding place_twap_order_orders[OF assms(1,2,3) z n assms(6)]
    by (simp add: validate_input_trace_irrelevant)
  finally show ?thesis .
qed

lemma events_of_Grid_none:
  "num_levels \<le> 1 \<Longrightarrow>
   calls_of (events_of c (Grid symb lower_bound upper_bound num_levels q) w) = []"
  by (simp add: events_of_def place_grid_orders_calls)

lemma events_of_Grid_orders:
  assumes "gateway_errors_logged c" and "1 < num_levels" and "num_levels \<le> 2 ^ 53"
    and "float_truediv (float_sub upper_bound lower_bound) (Fin (of_int (num_levels - 1))) =
           Inr price_step"
    and "float_truediv (float_add lower_bound upper_bound) (Fin 2) = Inr midpoint"
  shows "orders_of (events_of c (Grid symb lower_bound upper_bound num_levels q) w) =
         map (\<lambda>i. \<lparr>order_symbol = symb,
                    order_side =
                      (if float_lt (float_add lower_bound (float_mul (Fin (of_nat i)) price_step))
                            midpoint
                       then ''BUY'' else ''SELL''),
                    order_type = FUTURE_ORDER_TYPE_LIMIT, quantity = q,
                    price = Some (float_add lower_bound (float_mul (Fin (of_nat i)) price_step)),
                    stopPrice = None, timeInForce = Some ''GTC''\<rparr>)
           (takeWhile
              (\<lambda>i. fst (validate_input c symb q
                           (Some (float_add lower_bound (float_mul (Fin (of_nat i)) price_step)))
                           w) = Inr True)
              [0..<nat num_levels])"
proof -
  have "orders_of (events_of c (Grid symb lower_bound upper_bound num_levels q) w) =
      orders_of (calls_of (trace (snd (place_grid_orders c symb lower_bound upper_bound
        num_levels q (w\<lparr>trace := []\<rparr>)))))"
    by (simp add: events_of_def orders_of_calls_of)
  then show ?thesis
    unfolding place_grid_orders_orders[OF assms]
    by (simp add: validate_input_trace_irrelevant)
qed

lemma demo_gateways:
  "gateway_errors_logged demo_client"
  "gateway_errors_logged rejecting_client"
  by (auto simp: gateway_errors_logged_def demo_client_def rejecting_client_def
      split: if_splits)

lemma upt_3: "[0..<nat 3] = [0, 1, 2]" "[0..<nat 2] = [0, 1]"
  by (simp_all add: eval_nat_numeral)

lemma all_less_3: "(\<forall>i < nat 3. P i) = (P 0 \<and> P 1 \<and> P 2)"
  by (auto simp: eval_nat_numeral less_Suc_eq)

lemma upt_5: "[0..<5] = [0, 1, 2, 3, 4]"
  by (simp add: eval_nat_numeral)

lemma garbling_first:
  "futures_create_order garbling_client 0 ord = Inl (BinanceRequestException ''Invalid Response'')"
  by (simp add: garbling_client_def)

text \<open>
  What the strategies do when the gateway raises a \<open>BinanceRequestException\<close>:
  \<open>handle_error\<close> raises \<open>AttributeError\<close> on it. In TWAP and in the grid this happens in
  the handler of the inner \<open>try\<close>, so the outer handler ends the strategy after that
  sub-order; in the simulated bracket it happens in the only handler, so the exception
  leaves the function.
\<close>

lemma request_exception_ends_strategy:
  "orders_of (events_of garbling_client (Twap ''ETHUSDT'' ''BUY'' (Fin 10) 5 60) demo_world) =
     [\<lparr>order_symbol = ''ETHUSDT'', order_side = ''BUY'', order_type = ''MARKET'',
       quantity = Fin 2, price = None, stopPrice = None, timeInForce = None\<rparr>] \<and>
   orders_of (events_of garbling_client (Grid ''ETHUSDT'' (Fin 100) (Fin 200) 3 (Fin 2))
       demo_world) =
     [\<lparr>order_symbol = ''ETHUSDT'', order_side = ''BUY'', order_type = ''LIMIT'',
       quantity = Fin 2, price = Some (Fin 100), stopPrice = None, timeInForce = Some ''GTC''\<rparr>] \<and>
   fst (place_oco_order garbling_client ''ETHUSDT'' ''BUY'' (Fin 2) (Fin 200) (Fin 100)
       demo_world) = Inl AttributeError"
proof (intro conjI)
  have "orders_of (calls_of (events_of garbling_client
      (Twap ''ETHUSDT'' ''BUY'' (Fin 10) 5 60) demo_world)) =
     [\<lparr>order_symbol = ''ETHUSDT'', order_side = ''BUY'', order_type = ''MARKET'',
       quantity = Fin 2, price = None, stopPrice = None, timeInForce = None\<rparr>]"
    unfolding events_of_def invoke.simps place_twap_order_calls
    by (simp add: int_to_float_def upt_5 case_prod_beta calls_of_Cons demo_validate
        validate_input_trace_irrelevant demo_orders_sent garbling_first
        FUTURE_ORDER_TYPE_MARKET_def)
  then show "orders_of (events_of garbling_client (Twap ''ETHUSDT'' ''BUY'' (Fin 10) 5 60)
      demo_world) =
     [\<lparr>order_symbol = ''ETHUSDT'', order_side = ''BUY'', order_type = ''MARKET'',
       quantity = Fin 2, price = None, stopPrice = None, timeInForce = None\<rparr>]"
    by (simp add: orders_of_calls_of)
next
  have "orders_of (calls_of (events_of garbling_client
      (Grid ''ETHUSDT'' (Fin 100) (Fin 200) 3 (Fin 2)) demo_world)) =
     [\<lparr>order_symbol = ''ETHUSDT'', order_side = ''BUY'', order_type = ''LIMIT'',
       quantity = Fin 2, price = Some (Fin 100), stopPrice = None, timeInForce = Some ''GTC''\<rparr>]"
    unfolding events_of_def invoke.simps place_grid_orders_calls upt_3
    by (simp add: int_to_float_def float_sub_def case_prod_beta Let_def calls_of_Cons
        demo_validate validate_input_trace_irrelevant demo_orders_sent garbling_first
        FUTURE_ORDER_TYPE_LIMIT_def)
  then show "orders_of (events_of garbling_client
      (Grid ''ETHUSDT'' (Fin 100) (Fin 200) 3 (Fin 2)) demo_world) =
     [\<lparr>order_symbol = ''ETHUSDT'', order_side = ''BUY'', order_type = ''LIMIT'',
       quantity = Fin 2, price = Some (Fin 100), stopPrice = None, timeInForce = Some ''GTC''\<rparr>]"
    by (simp add: orders_of_calls_of)
next
  show "fst (place_oco_order garbling_client ''ETHUSDT'' ''BUY'' (Fin 2) (Fin 200) (Fin 100)
      demo_world) = Inl AttributeError"
    unfolding place_oco_order_def
    by (simp add: case_prod_beta Let_def validate_input_after_call except_Exception_def
        demo_validate demo_orders_sent garbling_first)
qed

section \<open>The claims about the strategies\<close>

text \<open>
  C1. In every invocation of a strategy (market, limit, stop-limit, simulated bracket, TWAP,
  grid), on every exchange and from every process state, each order sent to
  \<open>futures_create_order\<close> comes after a call of the validator, in the same invocation, that
  returned \<open>True\<close> for the order's symbol and quantity, and for its price when the order
  carries one. So an order whose validation failed or raised (as it does when the metadata
  fetch fails) is not sent. The limit strategy is the one modelled from the spec.
\<close>

theorem every_order_validated_first: "gateway_guarded [] (events_of c iv w)"
proof -
  have "gateway_guarded [] (calls_of (events_of c iv w))"
  proof (cases iv)
    case (Market symb side qty)
    show ?thesis
      unfolding Market events_of_Market
      by (simp add: gateway_guarded_Validate validated_def)
  next
    case (Limit symb side qty prc tif)
    show ?thesis
      unfolding Limit events_of_Limit
      by (simp add: gateway_guarded_Validate validated_def)
  next
    case (StopLimit symb side qty stop_price limit_price)
    show ?thesis
      unfolding StopLimit events_of_StopLimit
      by (simp add: gateway_guarded_Validate validated_def)
  next
    case (Bracket symb side qty take_profit stop_loss)
    show ?thesis
      unfolding Bracket events_of_Bracket
      by (simp add: gateway_guarded_Validate validated_def split: sum.splits)
  next
    case (Twap symb side total_quantity duration_minutes interval_seconds)
    show ?thesis
      unfolding Twap events_of_def invoke.simps
      by (rule place_twap_order_guarded) simp
  next
    case (Grid symb lower_bound upper_bound num_levels quantity_per_level)
    show ?thesis
      unfolding Grid events_of_def invoke.simps
      by (rule place_grid_orders_guarded) simp
  qed
  then show ?thesis by (simp add: gateway_guarded_calls_of)
qed

theorem every_order_validated_first_witness:
  "gateway_guarded [] (events_of demo_client (Market ''ETHUSDT'' ''BUY'' (Fin 2)) demo_world) \<and>
   calls_of (events_of demo_client (Market ''ETHUSDT'' ''BUY'' (Fin 2)) demo_world) =
     [Validate ''ETHUSDT'' (Fin 2) None (Inr True),
      CreateOrder
        \<lparr>order_symbol = ''ETHUSDT'', order_side = ''BUY'', order_type = ''MARKET'',
         quantity = Fin 2, price = None, stopPrice = None, timeInForce = None\<rparr>
        (Inr \<lparr>orderId = 0, status = ''NEW''\<rparr>)] \<and>
   gateway_guarded [] (events_of demo_client (Market ''ETHUSDT'' ''BUY'' (Fin 9)) demo_world) \<and>
   calls_of (events_of demo_client (Market ''ETHUSDT'' ''BUY'' (Fin 9)) demo_world) =
     [Validate ''ETHUSDT'' (Fin 9) None (Inr False)] \<and>
   \<not> gateway_guarded []
     [CreateOrder
        \<lparr>order_symbol = ''ETHUSDT'', order_side = ''BUY'', order_type = ''MARKET'',
         quantity = Fin 2, price = None, stopPrice = None, timeInForce = None\<rparr>
        (Inr \<lparr>orderId = 0, status = ''NEW''\<rparr>)]"
  using every_order_validated_first[of demo_client "Market ''ETHUSDT'' ''BUY'' (Fin 2)" demo_world]
    every_order_validated_first[of demo_client "Market ''ETHUSDT'' ''BUY'' (Fin 9)" demo_world]
  by (simp add: events_of_Market demo_validate demo_orders_sent demo_client_def
      FUTURE_ORDER_TYPE_MARKET_def validated_def)

text \<open>
  C2, as amended. The simulated bracket validates both legs before it submits anything: the
  take-profit price first and, only when that passed, the stop-loss price. When either
  validation does not pass, no order is submitted. When both pass, the take-profit order is
  submitted first, and the stop-loss order is submitted only when the take-profit submission
  returned: when the gateway raises on the take-profit sub-call, the stop-loss order is not
  submitted. When the exception raised there is one that \<open>handle_error\<close> logs, the strategy
  returns \<open>None\<close>.
\<close>

theorem place_oco_order_legs:
  "calls_of (events_of c (Bracket symb side qty take_profit stop_loss) w) =
     Validate symb qty (Some take_profit) (fst (validate_input c symb qty (Some take_profit) w)) #
     (if fst (validate_input c symb qty (Some take_profit) w) = Inr True
      then Validate symb qty (Some stop_loss) (fst (validate_input c symb qty (Some stop_loss) w)) #
        (if fst (validate_input c symb qty (Some stop_loss) w) = Inr True
         then CreateOrder
                \<lparr>order_symbol = symb, order_side = (if side = ''BUY'' then ''SELL'' else ''BUY''),
                 order_type = ''TAKE_PROFIT'', quantity = qty, price = None,
                 stopPrice = Some take_profit, timeInForce = None\<rparr>
                (futures_create_order c (orders_sent w)
                   \<lparr>order_symbol = symb,
                    order_side = (if side = ''BUY'' then ''SELL'' else ''BUY''),
                    order_type = ''TAKE_PROFIT'', quantity = qty, price = None,
                    stopPrice = Some take_profit, timeInForce = None\<rparr>) #
           (case futures_create_order c (orders_sent w)
                   \<lparr>order_symbol = symb,
                    order_side = (if side = ''BUY'' then ''SELL'' else ''BUY''),
                    order_type = ''TAKE_PROFIT'', quantity = qty, price = None,
                    stopPrice = Some take_profit, timeInForce = None\<rparr> of
              Inl e \<Rightarrow> []
            | Inr tp_order \<Rightarrow>
                [CreateOrder
                   \<lparr>order_symbol = symb,
                    order_side = (if side = ''BUY'' then ''SELL'' else ''BUY''),
                    order_type = ''STOP'', quantity = qty, price = None,
                    stopPrice = Some stop_loss, timeInForce = None\<rparr>
                   (futures_create_order c (orders_sent w + 1)
                      \<lparr>order_symbol = symb,
                       order_side = (if side = ''BUY'' then ''SELL'' else ''BUY''),
                       order_type = ''STOP'', quantity = qty, price = None,
                       stopPrice = Some stop_loss, timeInForce = None\<rparr>)])
         else [])
      else []) \<and>
   (\<forall>e. fst (validate_input c symb qty (Some take_profit) w) = Inr True \<and>
        fst (validate_input c symb qty (Some stop_loss) w) = Inr True \<and>
        futures_create_order c (orders_sent w)
          \<lparr>order_symbol = symb, order_side = (if side = ''BUY'' then ''SELL'' else ''BUY''),
           order_type = ''TAKE_PROFIT'', quantity = qty, price = None,
           stopPrice = Some take_profit, timeInForce = None\<rparr> = Inl e \<and>
        is_Exception e \<and> \<not> is_BinanceRequestException e \<longrightarrow>
        fst (place_oco_order c symb side qty take_profit stop_loss w) = Inr None)"
proof (intro conjI allI impI)
  show "calls_of (events_of c (Bracket symb side qty take_profit stop_loss) w) =
     Validate symb qty (Some take_profit) (fst (validate_input c symb qty (Some take_profit) w)) #
     (if fst (validate_input c symb qty (Some take_profit) w) = Inr True
      then Validate symb qty (Some stop_loss) (fst (validate_input c symb qty (Some stop_loss) w)) #
        (if fst (validate_input c symb qty (Some stop_loss) w) = Inr True
         then CreateOrder
                \<lparr>order_symbol = symb, order_side = (if side = ''BUY'' then ''SELL'' else ''BUY''),
                 order_type = ''TAKE_PROFIT'', quantity = qty, price = None,
                 stopPrice = Some take_profit, timeInForce = None\<rparr>
                (futures_create_order c (orders_sent w)
                   \<lparr>order_symbol = symb,
                    order_side = (if side = ''BUY'' then ''SELL'' else ''BUY''),
                    order_type = ''TAKE_PROFIT'', quantity = qty, price = None,
                    stopPrice = Some take_profit, timeInForce = None\<rparr>) #
           (case futures_create_order c (orders_sent w)
                   \<lparr>order_symbol = symb,
                    order_side = (if side = ''BUY'' then ''SELL'' else ''BUY''),
                    order_type = ''TAKE_PROFIT'', quantity = qty, price = None,
                    stopPrice = Some take_profit, timeInForce = None\<rparr> of
              Inl e \<Rightarrow> []
            | Inr tp_order \<Rightarrow>
                [CreateOrder
                   \<lparr>order_symbol = symb,
                    order_side = (if side = ''BUY'' then ''SELL'' else ''BUY''),
                    order_type = ''STOP'', quantity = qty, price = None,
                    stopPrice = Some stop_loss, timeInForce = None\<rparr>
                   (futures_create_order c (orders_sent w + 1)
                      \<lparr>order_symbol = symb,
                       order_side = (if side = ''BUY'' then ''SELL'' else ''BUY''),
                       order_type = ''STOP'', quantity = qty, price = None,
                       stopPrice = Some stop_loss, timeInForce = None\<rparr>)])
         else [])
      else [])"
    by (rule events_of_Bracket)
next
  fix e
  assume h: "fst (validate_input c symb qty (Some take_profit) w) = Inr True \<and>
        fst (validate_input c symb qty (Some stop_loss) w) = Inr True \<and>
        futures_create_order c (orders_sent w)
          \<lparr>order_symbol = symb, order_side = (if side = ''BUY'' then ''SELL'' else ''BUY''),
           order_type = ''TAKE_PROFIT'', quantity = qty, price = None,
           stopPrice = Some take_profit, timeInForce = None\<rparr> = Inl e \<and>
        is_Exception e \<and> \<not> is_BinanceRequestException e"
  then show "fst (place_oco_order c symb side qty take_profit stop_loss w) = Inr None"
    unfolding place_oco_order_def
    by (simp add: case_prod_beta Let_def validate_input_after_call except_Exception_def
        handle_error_logged)
qed

theorem place_oco_order_legs_witness:
  "fst (validate_input rejecting_client ''ETHUSDT'' (Fin 2) (Some (Fin 200)) demo_world) = Inr True \<and>
   fst (validate_input rejecting_client ''ETHUSDT'' (Fin 2) (Some (Fin 100)) demo_world) = Inr True \<and>
   futures_create_order rejecting_client (orders_sent demo_world)
     \<lparr>order_symbol = ''ETHUSDT'', order_side = ''SELL'', order_type = ''TAKE_PROFIT'',
      quantity = Fin 2, price = None, stopPrice = Some (Fin 200), timeInForce = None\<rparr> =
     Inl (BinanceAPIException (- 2019) ''Margin is insufficient.'') \<and>
   is_Exception (BinanceAPIException (- 2019) ''Margin is insufficient.'') \<and>
   \<not> is_BinanceRequestException (BinanceAPIException (- 2019) ''Margin is insufficient.'') \<and>
   calls_of (events_of rejecting_client (Bracket ''ETHUSDT'' ''BUY'' (Fin 2) (Fin 200) (Fin 100))
       demo_world) =
     [Validate ''ETHUSDT'' (Fin 2) (Some (Fin 200)) (Inr True),
      Validate ''ETHUSDT'' (Fin 2) (Some (Fin 100)) (Inr True),
      CreateOrder
        \<lparr>order_symbol = ''ETHUSDT'', order_side = ''SELL'', order_type = ''TAKE_PROFIT'',
         quantity = Fin 2, price = None, stopPrice = Some (Fin 200), timeInForce = None\<rparr>
        (Inl (BinanceAPIException (- 2019) ''Margin is insufficient.''))] \<and>
   fst (place_oco_order rejecting_client ''ETHUSDT'' ''BUY'' (Fin 2) (Fin 200) (Fin 100)
       demo_world) = Inr None \<and>
   calls_of (events_of demo_client (Bracket ''ETHUSDT'' ''BUY'' (Fin 2) (Fin 200) (Fin 100))
       demo_world) =
     [Validate ''ETHUSDT'' (Fin 2) (Some (Fin 200)) (Inr True),
      Validate ''ETHUSDT'' (Fin 2) (Some (Fin 100)) (Inr True),
      CreateOrder
        \<lparr>order_symbol = ''ETHUSDT'', order_side = ''SELL'', order_type = ''TAKE_PROFIT'',
         quantity = Fin 2, price = None, stopPrice = Some (Fin 200), timeInForce = None\<rparr>
        (Inr \<lparr>orderId = 0, status = ''NEW''\<rparr>),
      CreateOrder
        \<lparr>order_symbol = ''ETHUSDT'', order_side = ''SELL'', order_type = ''STOP'',
         quantity = Fin 2, price = None, stopPrice = Some (Fin 100), timeInForce = None\<rparr>
        (Inr \<lparr>orderId = 1, status = ''NEW''\<rparr>)]"
proof -
  note T = place_oco_order_legs[where symb = "''ETHUSDT''" and side = "''BUY''" and qty = "Fin 2"
      and take_profit = "Fin 200" and stop_loss = "Fin 100" and w = demo_world]
  have g: "futures_create_order rejecting_client (orders_sent demo_world)
     \<lparr>order_symbol = ''ETHUSDT'', order_side = ''SELL'', order_type = ''TAKE_PROFIT'',
      quantity = Fin 2, price = None, stopPrice = Some (Fin 200), timeInForce = None\<rparr> =
     Inl (BinanceAPIException (- 2019) ''Margin is insufficient.'')"
    by (simp add: rejecting_client_def demo_orders_sent)
  have a: "calls_of (events_of rejecting_client
        (Bracket ''ETHUSDT'' ''BUY'' (Fin 2) (Fin 200) (Fin 100)) demo_world) =
     [Validate ''ETHUSDT'' (Fin 2) (Some (Fin 200)) (Inr True),
      Validate ''ETHUSDT'' (Fin 2) (Some (Fin 100)) (Inr True),
      CreateOrder
        \<lparr>order_symbol = ''ETHUSDT'', order_side = ''SELL'', order_type = ''TAKE_PROFIT'',
         quantity = Fin 2, price = None, stopPrice = Some (Fin 200), timeInForce = None\<rparr>
        (Inl (BinanceAPIException (- 2019) ''Margin is insufficient.''))]"
    using T[where c = rejecting_client, THEN conjunct1] g by (simp add: demo_validate)
  have b: "fst (place_oco_order rejecting_client ''ETHUSDT'' ''BUY'' (Fin 2) (Fin 200) (Fin 100)
       demo_world) = Inr None"
    using T[where c = rejecting_client, THEN conjunct2] g by (simp add: demo_validate)
  have c: "calls_of (events_of demo_client
        (Bracket ''ETHUSDT'' ''BUY'' (Fin 2) (Fin 200) (Fin 100)) demo_world) =
     [Validate ''ETHUSDT'' (Fin 2) (Some (Fin 200)) (Inr True),
      Validate ''ETHUSDT'' (Fin 2) (Some (Fin 100)) (Inr True),
      CreateOrder
        \<lparr>order_symbol = ''ETHUSDT'', order_side = ''SELL'', order_type = ''TAKE_PROFIT'',
         quantity = Fin 2, price = None, stopPrice = Some (Fin 200), timeInForce = None\<rparr>
        (Inr \<lparr>orderId = 0, status = ''NEW''\<rparr>),
      CreateOrder
        \<lparr>order_symbol = ''ETHUSDT'', order_side = ''SELL'', order_type = ''STOP'',
         quantity = Fin 2, price = None, stopPrice = Some (Fin 100), timeInForce = None\<rparr>
        (Inr \<lparr>orderId = 1, status = ''NEW''\<rparr>)]"
    using T[where c = demo_client, THEN conjunct1]
    by (simp add: demo_validate demo_client_def demo_orders_sent)
  show ?thesis using g a b c by (simp add: demo_validate)
qed

text \<open>
  The claim as stated fails on a gateway that raises on the take-profit sub-call and would
  accept the stop-loss order: both legs pass validation, the take-profit order is the only
  order submitted, and the strategy returns \<open>None\<close>, not one failure and one success.
\<close>

theorem place_oco_order_stop_loss_counterexample:
  "futures_create_order rejecting_client 0
     \<lparr>order_symbol = ''ETHUSDT'', order_side = ''SELL'', order_type = ''TAKE_PROFIT'',
      quantity = Fin 2, price = None, stopPrice = Some (Fin 200), timeInForce = None\<rparr> =
     Inl (BinanceAPIException (- 2019) ''Margin is insufficient.'') \<and>
   futures_create_order rejecting_client 1
     \<lparr>order_symbol = ''ETHUSDT'', order_side = ''SELL'', order_type = ''STOP'',
      quantity = Fin 2, price = None, stopPrice = Some (Fin 100), timeInForce = None\<rparr> =
     Inr \<lparr>orderId = 1, status = ''NEW''\<rparr> \<and>
   validations_of (events_of rejecting_client
       (Bracket ''ETHUSDT'' ''BUY'' (Fin 2) (Fin 200) (Fin 100)) demo_world) =
     [(''ETHUSDT'', Fin 2, Some (Fin 200), Inr True),
      (''ETHUSDT'', Fin 2, Some (Fin 100), Inr True)] \<and>
   orders_of (events_of rejecting_client
       (Bracket ''ETHUSDT'' ''BUY'' (Fin 2) (Fin 200) (Fin 100)) demo_world) =
     [\<lparr>order_symbol = ''ETHUSDT'', order_side = ''SELL'', order_type = ''TAKE_PROFIT'',
       quantity = Fin 2, price = None, stopPrice = Some (Fin 200), timeInForce = None\<rparr>] \<and>
   fst (place_oco_order rejecting_client ''ETHUSDT'' ''BUY'' (Fin 2) (Fin 200) (Fin 100)
       demo_world) = Inr None"
proof -
  have o: "orders_of (calls_of (events_of rejecting_client
       (Bracket ''ETHUSDT'' ''BUY'' (Fin 2) (Fin 200) (Fin 100)) demo_world)) =
     [\<lparr>order_symbol = ''ETHUSDT'', order_side = ''SELL'', order_type = ''TAKE_PROFIT'',
       quantity = Fin 2, price = None, stopPrice = Some (Fin 200), timeInForce = None\<rparr>]"
    and v: "validations_of (calls_of (events_of rejecting_client
       (Bracket ''ETHUSDT'' ''BUY'' (Fin 2) (Fin 200) (Fin 100)) demo_world)) =
     [(''ETHUSDT'', Fin 2, Some (Fin 200), Inr True),
      (''ETHUSDT'', Fin 2, Some (Fin 100), Inr True)]"
    by (simp_all add: events_of_Bracket demo_validate demo_orders_sent rejecting_client_def)
  have r: "fst (place_oco_order rejecting_client ''ETHUSDT'' ''BUY'' (Fin 2) (Fin 200) (Fin 100)
       demo_world) = Inr None"
    unfolding place_oco_order_def
    by (simp add: case_prod_beta Let_def validate_input_after_call except_Exception_def
        demo_validate demo_orders_sent rejecting_client_def)
  show ?thesis
    using o v r by (simp add: orders_of_calls_of validations_of_calls_of rejecting_client_def)
qed

text \<open>
  C3, as amended. In the multi-order strategies a sub-order whose gateway call raises an
  exception that \<open>handle_error\<close> logs does not end the strategy, and a sub-order that fails
  validation does: on a gateway whose failures are such exceptions, whatever calls fail, the
  orders submitted are those of the planned sub-orders before the first one that does not
  pass validation. For TWAP (with a positive interval that \<open>time.sleep\<close> takes), whose
  sub-orders are all alike, these are all the sub-orders when the quantity per order passes
  validation and none otherwise; for the grid they are the levels below the first level whose
  price or quantity does not pass, and no level after it is submitted. The numbers of
  intervals and of levels are taken below \<open>2^53\<close>, where their conversion to a float is exact.
\<close>

theorem sub_order_failure_policy:
  "(gateway_errors_logged c \<and> 0 < interval_seconds \<and> interval_seconds \<le> time_sleep_max \<and>
    0 < (duration_minutes * 60) div interval_seconds \<and>
    (duration_minutes * 60) div interval_seconds < 2 ^ 53 \<and>
    float_truediv total_quantity (Fin (of_int ((duration_minutes * 60) div interval_seconds))) =
      Inr quantity_per_order \<longrightarrow>
      orders_of (events_of c (Twap symb side total_quantity duration_minutes interval_seconds) w) =
        (if fst (validate_input c symb quantity_per_order None w) = Inr True
         then replicate (nat ((duration_minutes * 60) div interval_seconds))
                \<lparr>order_symbol = symb, order_side = side, order_type = FUTURE_ORDER_TYPE_MARKET,
                 quantity = quantity_per_order, price = None, stopPrice = None,
                 timeInForce = None\<rparr>
         else [])) \<and>
   (gateway_errors_logged c \<and> 1 < num_levels \<and> num_levels \<le> 2 ^ 53 \<and>
    float_truediv (float_sub upper_bound lower_bound) (Fin (of_int (num_levels - 1))) =
      Inr price_step \<and>
    float_truediv (float_add lower_bound upper_bound) (Fin 2) = Inr midpoint \<longrightarrow>
      orders_of (events_of c (Grid symb lower_bound upper_bound num_levels q) w) =
        map (\<lambda>i. \<lparr>order_symbol = symb,
                   order_side =
                     (if float_lt (float_add lower_bound (float_mul (Fin (of_nat i)) price_step))
                           midpoint
                      then ''BUY'' else ''SELL''),
                   order_type = FUTURE_ORDER_TYPE_LIMIT, quantity = q,
                   price = Some (float_add lower_bound (float_mul (Fin (of_nat i)) price_step)),
                   stopPrice = None, timeInForce = Some ''GTC''\<rparr>)
          (takeWhile
             (\<lambda>i. fst (validate_input c symb q
                          (Some (float_add lower_bound (float_mul (Fin (of_nat i)) price_step)))
                          w) = Inr True)
             [0..<nat num_levels]))"
proof (rule conjI; rule impI)
  assume "gateway_errors_logged c \<and> 0 < interval_seconds \<and> interval_seconds \<le> time_sleep_max \<and>
    0 < (duration_minutes * 60) div interval_seconds \<and>
    (duration_minutes * 60) div interval_seconds < 2 ^ 53 \<and>
    float_truediv total_quantity (Fin (of_int ((duration_minutes * 60) div interval_seconds))) =
      Inr quantity_per_order"
  then show "orders_of (events_of c
      (Twap symb side total_quantity duration_minutes interval_seconds) w) =
        (if fst (validate_input c symb quantity_per_order None w) = Inr True
         then replicate (nat ((duration_minutes * 60) div interval_seconds))
                \<lparr>order_symbol = symb, order_side = side, order_type = FUTURE_ORDER_TYPE_MARKET,
                 quantity = quantity_per_order, price = None, stopPrice = None,
                 timeInForce = None\<rparr>
         else [])"
    by (intro events_of_Twap_orders) blast+
next
  assume "gateway_errors_logged c \<and> 1 < num_levels \<and> num_levels \<le> 2 ^ 53 \<and>
    float_truediv (float_sub upper_bound lower_bound) (Fin (of_int (num_levels - 1))) =
      Inr price_step \<and>
    float_truediv (float_add lower_bound upper_bound) (Fin 2) = Inr midpoint"
  then show "orders_of (events_of c (Grid symb lower_bound upper_bound num_levels q) w) =
        map (\<lambda>i. \<lparr>order_symbol = symb,
                   order_side =
                     (if float_lt (float_add lower_bound (float_mul (Fin (of_nat i)) price_step))
                           midpoint
                      then ''BUY'' else ''SELL''),
                   order_type = FUTURE_ORDER_TYPE_LIMIT, quantity = q,
                   price = Some (float_add lower_bound (float_mul (Fin (of_nat i)) price_step)),
                   stopPrice = None, timeInForce = Some ''GTC''\<rparr>)
          (takeWhile
             (\<lambda>i. fst (validate_input c symb q
                          (Some (float_add lower_bound (float_mul (Fin (of_nat i)) price_step)))
                          w) = Inr True)
             [0..<nat num_levels])"
    by (intro events_of_Grid_orders) blast+
qed

theorem sub_order_failure_policy_witness:
  "gateway_errors_logged rejecting_client \<and> (0::int) < 60 \<and> (60::int) \<le> time_sleep_max \<and> (0::int) < (5 * 60) div 60 \<and>
   ((5::int) * 60) div 60 < 2 ^ 53 \<and>
   float_truediv (Fin 10) (Fin (of_int ((5 * 60) div 60))) = Inr (Fin 2) \<and>
   futures_create_order rejecting_client 0
     \<lparr>order_symbol = ''ETHUSDT'', order_side = ''BUY'', order_type = ''MARKET'',
      quantity = Fin 2, price = None, stopPrice = None, timeInForce = None\<rparr> =
     Inl (BinanceAPIException (- 2019) ''Margin is insufficient.'') \<and>
   orders_of (events_of rejecting_client (Twap ''ETHUSDT'' ''BUY'' (Fin 10) 5 60) demo_world) =
     replicate 5
       \<lparr>order_symbol = ''ETHUSDT'', order_side = ''BUY'', order_type = ''MARKET'',
        quantity = Fin 2, price = None, stopPrice = None, timeInForce = None\<rparr> \<and>
   (1::int) < 3 \<and> (3::int) \<le> 2 ^ 53 \<and>
   float_truediv (float_sub (Fin 1100) (Fin 100)) (Fin (of_int (3 - 1))) = Inr (Fin 500) \<and>
   float_truediv (float_add (Fin 100) (Fin 1100)) (Fin 2) = Inr (Fin 600) \<and>
   fst (validate_input rejecting_client ''ETHUSDT'' (Fin 2) (Some (Fin 1100)) demo_world) =
     Inr False \<and>
   orders_of (events_of rejecting_client (Grid ''ETHUSDT'' (Fin 100) (Fin 1100) 3 (Fin 2))
       demo_world) =
     [\<lparr>order_symbol = ''ETHUSDT'', order_side = ''BUY'', order_type = ''LIMIT'',
       quantity = Fin 2, price = Some (Fin 100), stopPrice = None, timeInForce = Some ''GTC''\<rparr>,
      \<lparr>order_symbol = ''ETHUSDT'', order_side = ''SELL'', order_type = ''LIMIT'',
       quantity = Fin 2, price = Some (Fin 600), stopPrice = None, timeInForce = Some ''GTC''\<rparr>]"
proof -
  note T = sub_order_failure_policy[where c = rejecting_client and symb = "''ETHUSDT''"
      and w = demo_world]
  have n: "(0::int) < 60" "(60::int) \<le> time_sleep_max" "(0::int) < (5 * 60) div 60"
    "((5::int) * 60) div 60 < 2 ^ 53" "(1::int) < 3" "(3::int) \<le> 2 ^ 53"
    by (simp_all add: time_sleep_max_def)
  have d: "float_truediv (Fin 10) (Fin (of_int ((5 * 60) div 60))) = Inr (Fin 2)"
    by simp
  have g: "futures_create_order rejecting_client 0
     \<lparr>order_symbol = ''ETHUSDT'', order_side = ''BUY'', order_type = ''MARKET'',
      quantity = Fin 2, price = None, stopPrice = None, timeInForce = None\<rparr> =
     Inl (BinanceAPIException (- 2019) ''Margin is insufficient.'')"
    by (simp add: rejecting_client_def)
  have a: "orders_of (events_of rejecting_client (Twap ''ETHUSDT'' ''BUY'' (Fin 10) 5 60)
      demo_world) =
     replicate 5
       \<lparr>order_symbol = ''ETHUSDT'', order_side = ''BUY'', order_type = ''MARKET'',
        quantity = Fin 2, price = None, stopPrice = None, timeInForce = None\<rparr>"
    using T[where side = "''BUY''" and total_quantity = "Fin 10"
        and duration_minutes = 5 and interval_seconds = 60 and quantity_per_order = "Fin 2",
        THEN conjunct1]
      demo_gateways(2) demo_validate(1)[of rejecting_client]
    by (simp add: FUTURE_ORDER_TYPE_MARKET_def time_sleep_max_def)
  have s: "float_truediv (float_sub (Fin 1100) (Fin 100)) (Fin (of_int (3 - 1))) = Inr (Fin 500)"
    and m: "float_truediv (float_add (Fin 100) (Fin 1100)) (Fin 2) = Inr (Fin 600)"
    by (simp_all add: float_sub_def)
  have p: "float_add (Fin 100) (float_mul (Fin 0) (Fin 500)) = Fin 100"
    "float_add (Fin 100) (float_mul (Fin 1) (Fin 500)) = Fin 600"
    "float_add (Fin 100) (float_mul (Fin 2) (Fin 500)) = Fin 1100"
    by simp_all
  have b: "orders_of (events_of rejecting_client (Grid ''ETHUSDT'' (Fin 100) (Fin 1100) 3 (Fin 2))
      demo_world) =
     map (\<lambda>i. \<lparr>order_symbol = ''ETHUSDT'',
                order_side =
                  (if float_lt (float_add (Fin 100) (float_mul (Fin (of_nat i)) (Fin 500)))
                        (Fin 600)
                   then ''BUY'' else ''SELL''),
                order_type = FUTURE_ORDER_TYPE_LIMIT, quantity = Fin 2,
                price = Some (float_add (Fin 100) (float_mul (Fin (of_nat i)) (Fin 500))),
                stopPrice = None, timeInForce = Some ''GTC''\<rparr>)
       (takeWhile
          (\<lambda>i. fst (validate_input rejecting_client ''ETHUSDT'' (Fin 2)
                       (Some (float_add (Fin 100) (float_mul (Fin (of_nat i)) (Fin 500))))
                       demo_world) = Inr True)
          [0..<nat 3])"
    using T[where lower_bound = "Fin 100" and upper_bound = "Fin 1100"
        and num_levels = 3 and q = "Fin 2" and price_step = "Fin 500" and midpoint = "Fin 600",
        THEN conjunct2]
      s m demo_gateways(2)
    by simp
  have b': "orders_of (events_of rejecting_client
      (Grid ''ETHUSDT'' (Fin 100) (Fin 1100) 3 (Fin 2)) demo_world) =
     [\<lparr>order_symbol = ''ETHUSDT'', order_side = ''BUY'', order_type = ''LIMIT'',
       quantity = Fin 2, price = Some (Fin 100), stopPrice = None, timeInForce = Some ''GTC''\<rparr>,
      \<lparr>order_symbol = ''ETHUSDT'', order_side = ''SELL'', order_type = ''LIMIT'',
       quantity = Fin 2, price = Some (Fin 600), stopPrice = None, timeInForce = Some ''GTC''\<rparr>]"
    unfolding b upt_3 by (simp add: demo_validate FUTURE_ORDER_TYPE_LIMIT_def)
  show ?thesis
    by (intro conjI)
      (fact demo_gateways(2) n d g a s m b' demo_validate(8)[of rejecting_client])+
qed

text \<open>
  The claim as stated fails for the grid from \<open>25\<close> to \<open>100\<close> with two levels on the demo
  exchange, whose minimum price is \<open>50\<close>: the first level fails validation, the second level
  (price \<open>100\<close>) would pass, and the strategy makes the one validator call and no other
  call.
\<close>

theorem grid_validation_failure_counterexample:
  "float_add (Fin 25) (float_mul (Fin 1) (Fin 75)) = Fin 100 \<and>
   fst (validate_input demo_client ''ETHUSDT'' (Fin 2) (Some (Fin 100)) demo_world) = Inr True \<and>
   validations_of (events_of demo_client (Grid ''ETHUSDT'' (Fin 25) (Fin 100) 2 (Fin 2))
       demo_world) =
     [(''ETHUSDT'', Fin 2, Some (Fin 25), Inr False)] \<and>
   orders_of (events_of demo_client (Grid ''ETHUSDT'' (Fin 25) (Fin 100) 2 (Fin 2))
       demo_world) = []"
proof -
  have c: "calls_of (events_of demo_client (Grid ''ETHUSDT'' (Fin 25) (Fin 100) 2 (Fin 2))
      demo_world) = [Validate ''ETHUSDT'' (Fin 2) (Some (Fin 25)) (Inr False)]"
    unfolding events_of_def invoke.simps place_grid_orders_calls upt_3
    by (simp add: int_to_float_def float_sub_def case_prod_beta Let_def calls_of_Cons
        demo_validate validate_input_trace_irrelevant)
  have "validations_of (calls_of (events_of demo_client
      (Grid ''ETHUSDT'' (Fin 25) (Fin 100) 2 (Fin 2)) demo_world)) =
        [(''ETHUSDT'', Fin 2, Some (Fin 25), Inr False)]"
    and "orders_of (calls_of (events_of demo_client
      (Grid ''ETHUSDT'' (Fin 25) (Fin 100) 2 (Fin 2)) demo_world)) = []"
    unfolding c by simp_all
  then show ?thesis
    by (simp add: validations_of_calls_of orders_of_calls_of demo_validate)
qed

text \<open>
  C7, as amended. TWAP computes the number of intervals as
  \<open>(duration_minutes * 60) // interval_seconds\<close>. When it is zero the strategy makes no call at
  all, of the validator or of the gateway. When it is positive (and below \<open>2^53\<close>) and the
  quantity per order \<open>total_quantity / num_intervals\<close> passes validation, the orders submitted
  are that many
  equal MARKET orders of that quantity; this on a gateway whose failures are exceptions that
  \<open>handle_error\<close> logs and for a positive interval that \<open>time.sleep\<close> takes. In particular
  five minutes at sixty seconds then give five orders of a fifth of the total each, and one
  minute at \<open>120\<close> seconds gives no call.
\<close>

theorem place_twap_order_splits:
  "((duration_minutes * 60) div interval_seconds = 0 \<longrightarrow>
      calls_of (events_of c (Twap symb side total_quantity duration_minutes interval_seconds) w) = []) \<and>
   (gateway_errors_logged c \<and> 0 < interval_seconds \<and> interval_seconds \<le> time_sleep_max \<and>
    num_intervals = (duration_minutes * 60) div interval_seconds \<and>
    0 < num_intervals \<and> num_intervals < 2 ^ 53 \<and>
    float_truediv total_quantity (Fin (of_int num_intervals)) = Inr quantity_per_order \<and>
    fst (validate_input c symb quantity_per_order None w) = Inr True \<longrightarrow>
      orders_of (events_of c (Twap symb side total_quantity duration_minutes interval_seconds) w) =
        replicate (nat num_intervals)
          \<lparr>order_symbol = symb, order_side = side, order_type = FUTURE_ORDER_TYPE_MARKET,
           quantity = quantity_per_order, price = None, stopPrice = None, timeInForce = None\<rparr>) \<and>
   (gateway_errors_logged c \<and>
    float_truediv total_quantity (Fin 5) = Inr fifth \<and>
    fst (validate_input c symb fifth None w) = Inr True \<longrightarrow>
      orders_of (events_of c (Twap symb side total_quantity 5 60) w) =
        replicate 5
          \<lparr>order_symbol = symb, order_side = side, order_type = FUTURE_ORDER_TYPE_MARKET,
           quantity = fifth, price = None, stopPrice = None, timeInForce = None\<rparr>) \<and>
   calls_of (events_of c (Twap symb side total_quantity 1 120) w) = []"
proof (intro conjI impI)
  assume "(duration_minutes * 60) div interval_seconds = 0"
  then show "calls_of (events_of c
      (Twap symb side total_quantity duration_minutes interval_seconds) w) = []"
    by (rule events_of_Twap_none)
next
  assume h: "gateway_errors_logged c \<and> 0 < interval_seconds \<and> interval_seconds \<le> time_sleep_max \<and>
    num_intervals = (duration_minutes * 60) div interval_seconds \<and>
    0 < num_intervals \<and> num_intervals < 2 ^ 53 \<and>
    float_truediv total_quantity (Fin (of_int num_intervals)) = Inr quantity_per_order \<and>
    fst (validate_input c symb quantity_per_order None w) = Inr True"
  then have n: "num_intervals = (duration_minutes * 60) div interval_seconds"
    and v: "fst (validate_input c symb quantity_per_order None w) = Inr True"
    by blast+
  from h have "orders_of (events_of c
      (Twap symb side total_quantity duration_minutes interval_seconds) w) =
         (if fst (validate_input c symb quantity_per_order None w) = Inr True
          then replicate (nat ((duration_minutes * 60) div interval_seconds))
                 \<lparr>order_symbol = symb, order_side = side, order_type = FUTURE_ORDER_TYPE_MARKET,
                  quantity = quantity_per_order, price = None, stopPrice = None,
                  timeInForce = None\<rparr>
          else [])"
    by (intro events_of_Twap_orders) (auto simp del: float_truediv.simps)
  with n v show "orders_of (events_of c
      (Twap symb side total_quantity duration_minutes interval_seconds) w) =
        replicate (nat num_intervals)
          \<lparr>order_symbol = symb, order_side = side, order_type = FUTURE_ORDER_TYPE_MARKET,
           quantity = quantity_per_order, price = None, stopPrice = None, timeInForce = None\<rparr>"
    by simp
next
  assume h: "gateway_errors_logged c \<and>
    float_truediv total_quantity (Fin 5) = Inr fifth \<and>
    fst (validate_input c symb fifth None w) = Inr True"
  then have v: "fst (validate_input c symb fifth None w) = Inr True" by blast
  from h have "orders_of (events_of c (Twap symb side total_quantity 5 60) w) =
         (if fst (validate_input c symb fifth None w) = Inr True
          then replicate (nat ((5 * 60) div 60))
                 \<lparr>order_symbol = symb, order_side = side, order_type = FUTURE_ORDER_TYPE_MARKET,
                  quantity = fifth, price = None, stopPrice = None, timeInForce = None\<rparr>
          else [])"
    by (intro events_of_Twap_orders)
      (auto simp: time_sleep_max_def simp del: float_truediv.simps)
  with v show "orders_of (events_of c (Twap symb side total_quantity 5 60) w) =
        replicate 5
          \<lparr>order_symbol = symb, order_side = side, order_type = FUTURE_ORDER_TYPE_MARKET,
           quantity = fifth, price = None, stopPrice = None, timeInForce = None\<rparr>"
    by simp
next
  show "calls_of (events_of c (Twap symb side total_quantity 1 120) w) = []"
    by (rule events_of_Twap_none) simp
qed

theorem place_twap_order_splits_witness:
  "gateway_errors_logged demo_client \<and> (0::int) < 60 \<and> (60::int) \<le> time_sleep_max \<and>
   (5::int) = (5 * 60) div 60 \<and> (0::int) < 5 \<and> (5::int) < 2 ^ 53 \<and>
   float_truediv (Fin 10) (Fin (of_int 5)) = Inr (Fin 2) \<and>
   fst (validate_input demo_client ''ETHUSDT'' (Fin 2) None demo_world) = Inr True \<and>
   orders_of (events_of demo_client (Twap ''ETHUSDT'' ''BUY'' (Fin 10) 5 60) demo_world) =
     replicate 5
       \<lparr>order_symbol = ''ETHUSDT'', order_side = ''BUY'', order_type = ''MARKET'',
        quantity = Fin 2, price = None, stopPrice = None, timeInForce = None\<rparr> \<and>
   ((1::int) * 60) div 120 = 0 \<and>
   calls_of (events_of demo_client (Twap ''ETHUSDT'' ''BUY'' (Fin 10) 1 120) demo_world) = []"
proof -
  note T = place_twap_order_splits[where c = demo_client and symb = "''ETHUSDT''"
      and side = "''BUY''" and total_quantity = "Fin 10" and w = demo_world
      and quantity_per_order = "Fin 2" and fifth = "Fin 2" and num_intervals = 5
      and duration_minutes = 5 and interval_seconds = 60]
  have d: "float_truediv (Fin 10) (Fin (of_int 5)) = Inr (Fin 2)"
    "float_truediv (Fin 10) (Fin 5) = Inr (Fin 2)"
    by simp_all
  have a: "orders_of (events_of demo_client (Twap ''ETHUSDT'' ''BUY'' (Fin 10) 5 60) demo_world) =
     replicate 5
       \<lparr>order_symbol = ''ETHUSDT'', order_side = ''BUY'', order_type = FUTURE_ORDER_TYPE_MARKET,
        quantity = Fin 2, price = None, stopPrice = None, timeInForce = None\<rparr>"
    using T d(1) demo_gateways(1) demo_validate(1)[of demo_client]
    by (simp add: time_sleep_max_def)
  have b: "calls_of (events_of demo_client (Twap ''ETHUSDT'' ''BUY'' (Fin 10) 1 120) demo_world) = []"
    using T by blast
  show ?thesis
    using a b d demo_gateways(1) demo_validate(1)[of demo_client]
    by (simp add: FUTURE_ORDER_TYPE_MARKET_def time_sleep_max_def)
qed

text \<open>
  The claim as stated fails when the quantity per order does not pass validation: forty-five
  units over five minutes at sixty seconds are five intervals of nine units each, above the
  demo exchange's maximum quantity of eight, and the strategy submits no order.
\<close>

theorem place_twap_order_validation_counterexample:
  "((5::int) * 60) div 60 = 5 \<and>
   float_truediv (Fin 45) (Fin 5) = Inr (Fin 9) \<and>
   fst (validate_input demo_client ''ETHUSDT'' (Fin 9) None demo_world) = Inr False \<and>
   orders_of (events_of demo_client (Twap ''ETHUSDT'' ''BUY'' (Fin 45) 5 60) demo_world) = []"
proof -
  have d: "float_truediv (Fin 45) (Fin (of_int ((5 * 60) div 60))) = Inr (Fin 9)"
    "float_truediv (Fin 45) (Fin 5) = Inr (Fin 9)"
    by simp_all
  have "orders_of (events_of demo_client (Twap ''ETHUSDT'' ''BUY'' (Fin 45) 5 60) demo_world) =
      (if fst (validate_input demo_client ''ETHUSDT'' (Fin 9) None demo_world) = Inr True
       then replicate (nat ((5 * 60) div 60))
              \<lparr>order_symbol = ''ETHUSDT'', order_side = ''BUY'',
               order_type = FUTURE_ORDER_TYPE_MARKET, quantity = Fin 9, price = None,
               stopPrice = None, timeInForce = None\<rparr>
       else [])"
    by (rule events_of_Twap_orders[OF demo_gateways(1) _ _ _ _ d(1)])
      (simp_all add: time_sleep_max_def)
  then have "orders_of (events_of demo_client (Twap ''ETHUSDT'' ''BUY'' (Fin 45) 5 60)
      demo_world) = []"
    by (simp add: demo_validate)
  with d(2) show ?thesis by (simp add: demo_validate)
qed

text \<open>
  C8, as amended. With at most one level the grid strategy makes no call at all. With more
  levels (at most \<open>2^53\<close>), when every level passes validation (on a gateway whose failures are exceptions that
  \<open>handle_error\<close> logs), it submits one LIMIT order for each \<open>i\<close> in
  \<open>0 .. num_levels - 1\<close>, in this order, at the price \<open>lower_bound + i * price_step\<close> with
  \<open>price_step = (upper_bound - lower_bound) / (num_levels - 1)\<close>; its side is BUY exactly when
  the price is below the midpoint \<open>(lower_bound + upper_bound) / 2\<close> and SELL otherwise, so
  a level at the midpoint is a SELL.
\<close>

theorem place_grid_orders_levels:
  "(num_levels \<le> 1 \<longrightarrow>
      calls_of (events_of c (Grid symb lower_bound upper_bound num_levels q) w) = []) \<and>
   (gateway_errors_logged c \<and> 1 < num_levels \<and> num_levels \<le> 2 ^ 53 \<and>
    float_truediv (float_sub upper_bound lower_bound) (Fin (of_int (num_levels - 1))) =
      Inr price_step \<and>
    float_truediv (float_add lower_bound upper_bound) (Fin 2) = Inr midpoint \<and>
    (\<forall>i < nat num_levels.
       fst (validate_input c symb q
              (Some (float_add lower_bound (float_mul (Fin (of_nat i)) price_step))) w) =
         Inr True) \<longrightarrow>
      orders_of (events_of c (Grid symb lower_bound upper_bound num_levels q) w) =
        map (\<lambda>i. \<lparr>order_symbol = symb,
                   order_side =
                     (if float_lt (float_add lower_bound (float_mul (Fin (of_nat i)) price_step))
                           midpoint
                      then ''BUY'' else ''SELL''),
                   order_type = FUTURE_ORDER_TYPE_LIMIT, quantity = q,
                   price = Some (float_add lower_bound (float_mul (Fin (of_nat i)) price_step)),
                   stopPrice = None, timeInForce = Some ''GTC''\<rparr>)
          [0..<nat num_levels])"
proof (intro conjI impI)
  assume "num_levels \<le> 1"
  then show "calls_of (events_of c (Grid symb lower_bound upper_bound num_levels q) w) = []"
    by (rule events_of_Grid_none)
next
  assume h: "gateway_errors_logged c \<and> 1 < num_levels \<and> num_levels \<le> 2 ^ 53 \<and>
    float_truediv (float_sub upper_bound lower_bound) (Fin (of_int (num_levels - 1))) =
      Inr price_step \<and>
    float_truediv (float_add lower_bound upper_bound) (Fin 2) = Inr midpoint \<and>
    (\<forall>i < nat num_levels.
       fst (validate_input c symb q
              (Some (float_add lower_bound (float_mul (Fin (of_nat i)) price_step))) w) =
         Inr True)"
  then have t: "takeWhile
      (\<lambda>i. fst (validate_input c symb q
                   (Some (float_add lower_bound (float_mul (Fin (of_nat i)) price_step))) w) =
             Inr True)
      [0..<nat num_levels] = [0..<nat num_levels]"
    by (simp add: takeWhile_eq_all_conv del: float_truediv.simps)
  from h have g: "gateway_errors_logged c" and n: "1 < num_levels" "num_levels \<le> 2 ^ 53"
    and s: "float_truediv (float_sub upper_bound lower_bound) (Fin (of_int (num_levels - 1))) =
      Inr price_step"
    and m: "float_truediv (float_add lower_bound upper_bound) (Fin 2) = Inr midpoint"
    by blast+
  show "orders_of (events_of c (Grid symb lower_bound upper_bound num_levels q) w) =
        map (\<lambda>i. \<lparr>order_symbol = symb,
                   order_side =
                     (if float_lt (float_add lower_bound (float_mul (Fin (of_nat i)) price_step))
                           midpoint
                      then ''BUY'' else ''SELL''),
                   order_type = FUTURE_ORDER_TYPE_LIMIT, quantity = q,
                   price = Some (float_add lower_bound (float_mul (Fin (of_nat i)) price_step)),
                   stopPrice = None, timeInForce = Some ''GTC''\<rparr>)
          [0..<nat num_levels]"
    unfolding events_of_Grid_orders[OF g n s m] t ..
qed

theorem place_grid_orders_levels_witness:
  "gateway_errors_logged demo_client \<and> (1::int) < 3 \<and> (3::int) \<le> 2 ^ 53 \<and>
   float_truediv (float_sub (Fin 200) (Fin 100)) (Fin (of_int (3 - 1))) = Inr (Fin 50) \<and>
   float_truediv (float_add (Fin 100) (Fin 200)) (Fin 2) = Inr (Fin 150) \<and>
   fst (validate_input demo_client ''ETHUSDT'' (Fin 2)
          (Some (float_add (Fin 100) (float_mul (Fin (of_nat 0)) (Fin 50)))) demo_world) =
     Inr True \<and>
   fst (validate_input demo_client ''ETHUSDT'' (Fin 2)
          (Some (float_add (Fin 100) (float_mul (Fin (of_nat 1)) (Fin 50)))) demo_world) =
     Inr True \<and>
   fst (validate_input demo_client ''ETHUSDT'' (Fin 2)
          (Some (float_add (Fin 100) (float_mul (Fin (of_nat 2)) (Fin 50)))) demo_world) =
     Inr True \<and>
   orders_of (events_of demo_client (Grid ''ETHUSDT'' (Fin 100) (Fin 200) 3 (Fin 2)) demo_world) =
     [\<lparr>order_symbol = ''ETHUSDT'', order_side = ''BUY'', order_type = ''LIMIT'',
       quantity = Fin 2, price = Some (Fin 100), stopPrice = None, timeInForce = Some ''GTC''\<rparr>,
      \<lparr>order_symbol = ''ETHUSDT'', order_side = ''SELL'', order_type = ''LIMIT'',
       quantity = Fin 2, price = Some (Fin 150), stopPrice = None, timeInForce = Some ''GTC''\<rparr>,
      \<lparr>order_symbol = ''ETHUSDT'', order_side = ''SELL'', order_type = ''LIMIT'',
       quantity = Fin 2, price = Some (Fin 200), stopPrice = None, timeInForce = Some ''GTC''\<rparr>] \<and>
   calls_of (events_of demo_client (Grid ''ETHUSDT'' (Fin 100) (Fin 200) 1 (Fin 2)) demo_world) = []"
proof -
  note T = place_grid_orders_levels[where c = demo_client and symb = "''ETHUSDT''"
      and lower_bound = "Fin 100" and upper_bound = "Fin 200" and q = "Fin 2" and w = demo_world
      and price_step = "Fin 50" and midpoint = "Fin 150"]
  have s: "float_truediv (float_sub (Fin 200) (Fin 100)) (Fin (of_int (3 - 1))) = Inr (Fin 50)"
    and m: "float_truediv (float_add (Fin 100) (Fin 200)) (Fin 2) = Inr (Fin 150)"
    by (simp_all add: float_sub_def)
  have p: "float_add (Fin 100) (float_mul (Fin 0) (Fin 50)) = Fin 100"
    "float_add (Fin 100) (float_mul (Fin 1) (Fin 50)) = Fin 150"
    "float_add (Fin 100) (float_mul (Fin 2) (Fin 50)) = Fin 200"
    by simp_all
  have v: "\<forall>i < nat 3.
      fst (validate_input demo_client ''ETHUSDT'' (Fin 2)
             (Some (float_add (Fin 100) (float_mul (Fin (of_nat i)) (Fin 50)))) demo_world) =
        Inr True"
    unfolding all_less_3 by (simp add: p demo_validate)
  have a: "orders_of (events_of demo_client (Grid ''ETHUSDT'' (Fin 100) (Fin 200) 3 (Fin 2))
      demo_world) =
     map (\<lambda>i. \<lparr>order_symbol = ''ETHUSDT'',
                order_side =
                  (if float_lt (float_add (Fin 100) (float_mul (Fin (of_nat i)) (Fin 50))) (Fin 150)
                   then ''BUY'' else ''SELL''),
                order_type = FUTURE_ORDER_TYPE_LIMIT, quantity = Fin 2,
                price = Some (float_add (Fin 100) (float_mul (Fin (of_nat i)) (Fin 50))),
                stopPrice = None, timeInForce = Some ''GTC''\<rparr>)
       [0..<nat 3]"
    using T[where num_levels = 3] s m v demo_gateways(1) by simp
  have b: "calls_of (events_of demo_client (Grid ''ETHUSDT'' (Fin 100) (Fin 200) 1 (Fin 2))
      demo_world) = []"
    using T[where num_levels = 1] by simp
  have a': "orders_of (events_of demo_client (Grid ''ETHUSDT'' (Fin 100) (Fin 200) 3 (Fin 2))
      demo_world) =
     [\<lparr>order_symbol = ''ETHUSDT'', order_side = ''BUY'', order_type = ''LIMIT'',
       quantity = Fin 2, price = Some (Fin 100), stopPrice = None, timeInForce = Some ''GTC''\<rparr>,
      \<lparr>order_symbol = ''ETHUSDT'', order_side = ''SELL'', order_type = ''LIMIT'',
       quantity = Fin 2, price = Some (Fin 150), stopPrice = None, timeInForce = Some ''GTC''\<rparr>,
      \<lparr>order_symbol = ''ETHUSDT'', order_side = ''SELL'', order_type = ''LIMIT'',
       quantity = Fin 2, price = Some (Fin 200), stopPrice = None, timeInForce = Some ''GTC''\<rparr>]"
    unfolding a upt_3 by (simp add: FUTURE_ORDER_TYPE_LIMIT_def)
  have n: "(1::int) < 3" "(3::int) \<le> 2 ^ 53" by simp_all
  have v3: "fst (validate_input demo_client ''ETHUSDT'' (Fin 2)
          (Some (float_add (Fin 100) (float_mul (Fin (of_nat 0)) (Fin 50)))) demo_world) =
     Inr True"
    "fst (validate_input demo_client ''ETHUSDT'' (Fin 2)
          (Some (float_add (Fin 100) (float_mul (Fin (of_nat 1)) (Fin 50)))) demo_world) =
     Inr True"
    "fst (validate_input demo_client ''ETHUSDT'' (Fin 2)
          (Some (float_add (Fin 100) (float_mul (Fin (of_nat 2)) (Fin 50)))) demo_world) =
     Inr True"
    by (simp_all add: demo_validate)
  show ?thesis by (intro conjI) (fact demo_gateways(1) n s m v3 a' b)+
qed

text \<open>
  The claim as stated fails when a level does not pass validation: of the three levels
  \<open>100\<close>, \<open>600\<close> and \<open>1100\<close> the last is above the demo exchange's maximum price of
  \<open>1000\<close>, and the strategy submits two orders, not three.
\<close>

theorem place_grid_orders_validation_counterexample:
  "float_truediv (float_sub (Fin 1100) (Fin 100)) (Fin (of_int (3 - 1))) = Inr (Fin 500) \<and>
   float_add (Fin 100) (float_mul (Fin 2) (Fin 500)) = Fin 1100 \<and>
   fst (validate_input demo_client ''ETHUSDT'' (Fin 2) (Some (Fin 1100)) demo_world) =
     Inr False \<and>
   orders_of (events_of demo_client (Grid ''ETHUSDT'' (Fin 100) (Fin 1100) 3 (Fin 2))
       demo_world) =
     [\<lparr>order_symbol = ''ETHUSDT'', order_side = ''BUY'', order_type = ''LIMIT'',
       quantity = Fin 2, price = Some (Fin 100), stopPrice = None, timeInForce = Some ''GTC''\<rparr>,
      \<lparr>order_symbol = ''ETHUSDT'', order_side = ''SELL'', order_type = ''LIMIT'',
       quantity = Fin 2, price = Some (Fin 600), stopPrice = None, timeInForce = Some ''GTC''\<rparr>]"
proof -
  have n: "(1::int) < 3" "(3::int) \<le> 2 ^ 53" by simp_all
  have s: "float_truediv (float_sub (Fin 1100) (Fin 100)) (Fin (of_int (3 - 1))) = Inr (Fin 500)"
    and m: "float_truediv (float_add (Fin 100) (Fin 1100)) (Fin 2) = Inr (Fin 600)"
    by (simp_all add: float_sub_def)
  have p: "float_add (Fin 100) (float_mul (Fin 0) (Fin 500)) = Fin 100"
    "float_add (Fin 100) (float_mul (Fin 1) (Fin 500)) = Fin 600"
    "float_add (Fin 100) (float_mul (Fin 2) (Fin 500)) = Fin 1100"
    by simp_all
  have o: "orders_of (events_of demo_client (Grid ''ETHUSDT'' (Fin 100) (Fin 1100) 3 (Fin 2))
      demo_world) =
     [\<lparr>order_symbol = ''ETHUSDT'', order_side = ''BUY'', order_type = ''LIMIT'',
       quantity = Fin 2, price = Some (Fin 100), stopPrice = None, timeInForce = Some ''GTC''\<rparr>,
      \<lparr>order_symbol = ''ETHUSDT'', order_side = ''SELL'', order_type = ''LIMIT'',
       quantity = Fin 2, price = Some (Fin 600), stopPrice = None, timeInForce = Some ''GTC''\<rparr>]"
    unfolding events_of_Grid_orders[OF demo_gateways(1) n s m] upt_3
    by (simp add: demo_validate FUTURE_ORDER_TYPE_LIMIT_def)
  show ?thesis
    by (intro conjI) (fact s p(3) o demo_validate(8)[of demo_client])+
qed
end
